theory Spec2Isabelle
  imports Main
begin

section \<open>Shared vocabulary of the payment flows\<close>

text \<open>
  The two flows of \<^verbatim>\<open>src/payment-flows\<close> are asynchronous JavaScript: every operation
  builds a promise chain over external calls (order creation, token exchange, the
  message socket, popups, merchant callbacks). The model runs each chain to completion:
  a promise is a function from the world to its outcome (\<open>Inl\<close> a rejection or an
  exception, \<open>Inr\<close> the resolved value) and the world afterwards. Every external call is
  recorded in the world's trace, and its answer is read from an environment of oracles
  that see the whole history, so that the same call may answer differently each time.
\<close>

datatype funding = PAYPAL | VENMO | CREDIT | CARD | OTHER_FUNDING string

datatype error = Error string | TypeError string | PopupOpenError string

datatype log_level = INFO | WARN | ERROR

datatype message = SET_PROPS | GET_PROPS | CLOSE | FALLBACK | ON_APPROVE | ON_CANCEL | ON_ERROR

text \<open>
  Modelled from the spec: the table \<^verbatim>\<open>BUYER_INTENT\<close> of \<^verbatim>\<open>src/constants\<close> is not among the
  sources; the one entry the wallet-capture flow uses is the intent the spec calls
  "pay with different funding/shipping".
\<close>

datatype buyer_intent = PAY | PAY_WITH_DIFFERENT_FUNDING_SHIPPING

type_synonym win = nat
type_synonym socket = nat

record instrument =
  inst_instrumentID :: "string option"
  inst_type :: "string option"
  oneClick :: bool

record wallet_funding =
  instruments :: "instrument list"

type_synonym wallet = "funding \<Rightarrow> wallet_funding option"

record payment =
  win :: "win option"
  fundingSource :: funding
  instrumentID :: "string option"
  authCode :: "string option"
  isClick :: "bool option"
  buyerIntent :: "buyer_intent option"
  pay_buyerAccessToken :: "string option"
  venmoPayloadID :: "string option"

record service_data =
  buyerAccessToken :: "string option"
  wallet :: "wallet option"
  facilitatorAccessToken :: string

record props =
  enableNativeCheckout :: bool
  commit :: bool
  buttonSessionID :: string
  props_env :: string
  stageHost :: "string option"
  apiStageHost :: "string option"

record config =
  version :: string
  firebase :: "string option"

record shipping_address =
  isFullAddress :: bool

record supplemental_order =
  isShippingAddressRequired :: bool
  shippingAddress :: "shipping_address option"

record approve_data =
  payerID :: "string option"
  paymentID :: "string option"
  billingToken :: "string option"
  isNativeTransaction :: bool

record native_url =
  nu_domain :: string
  nu_fundingSource :: funding
  nu_sessionUID :: "string option"
  nu_buttonSessionID :: string
  nu_pageUrl :: "string option"

record web_url =
  wu_domain :: string
  wu_fundingSource :: funding
  wu_facilitatorAccessToken :: string
  wu_token :: string
  wu_useraction_commit :: bool
  wu_native_xo :: string
  wu_venmoOverride :: string

record sdk_props =
  sp_orderID :: string
  sp_facilitatorAccessToken :: string
  sp_pageUrl :: string
  sp_commit :: bool
  sp_webCheckoutUrl :: web_url
  sp_userAgent :: string
  sp_buttonSessionID :: string
  sp_env :: string
  sp_stageHost :: "string option"
  sp_apiStageHost :: "string option"
  sp_forceEligible :: bool

text \<open>The external calls a flow makes, in the order it makes them.\<close>

datatype event =
    Log log_level string "error option"
  | CreateOrder
  | GetSupplementalOrderInfo string
  | ExchangeAccessTokenForAuthCode string
  | OneClickApproveOrder string string string string
  | OnApprove approve_data
  | OnCancel
  | OnError error
  | OnClick funding
  | CheckoutInit payment
  | CheckoutStart payment
  | CheckoutClose payment
  | Delay nat
  | UniqueID
  | FirebaseSocket string "string option" string
  | SocketOnError socket
  | SocketOn socket message
  | SocketReconnect socket
  | SocketSend socket message "sdk_props option"
  | SocketClose socket
  | GetPageUrl
  | Popup native_url
  | WinClose win

text \<open>
  Modelled from the spec: the API calls of \<^verbatim>\<open>src/api\<close> (\<^verbatim>\<open>getSupplementalOrderInfo\<close>,
  \<^verbatim>\<open>exchangeAccessTokenForAuthCode\<close>, \<^verbatim>\<open>oneClickApproveOrder\<close>, the socket's \<^verbatim>\<open>send\<close>)
  and the generic checkout flow of \<^verbatim>\<open>./checkout\<close> are not among the sources; the spec
  takes them as external operations with a name, an input and a result or an error, and
  the checkout flow as a black box with \<^verbatim>\<open>init({...}).start()\<close> and \<^verbatim>\<open>close()\<close>. They
  are parameters here, together with the merchant's callbacks and the browser probes of
  the \<^verbatim>\<open>belter\<close> library: the environment says what each of them answers. Each oracle
  reads the history up to and including the call it answers, whose last event carries the
  call's arguments. A callback that returns a promise fails by rejecting it, so a failure
  of \<^verbatim>\<open>createOrder\<close> is a rejection.
\<close>

record env =
  createOrder :: "event list \<Rightarrow> error + string"
  getSupplementalOrderInfo :: "event list \<Rightarrow> error + supplemental_order"
  exchangeAccessTokenForAuthCode :: "event list \<Rightarrow> error + string"
  oneClickApproveOrder :: "event list \<Rightarrow> error + string"
  onApprove :: "event list \<Rightarrow> error + unit"
  onCancel :: "event list \<Rightarrow> error + unit"
  onError :: "event list \<Rightarrow> error + unit"
  onClick :: "(event list \<Rightarrow> error + bool) option"
  getPageUrl :: "event list \<Rightarrow> error + string"
  checkout_start :: "event list \<Rightarrow> error + unit"
  checkout_close :: "event list \<Rightarrow> error + unit"
  socket_send :: "event list \<Rightarrow> error + unit"
  popup :: "event list \<Rightarrow> error + win"
  isWindowClosed :: "event list \<Rightarrow> win \<Rightarrow> bool"
  uniqueID :: "event list \<Rightarrow> string"
  isIos :: bool
  isSafari :: bool
  isAndroid :: bool
  isChrome :: bool
  localStorage_getItem :: "string \<Rightarrow> error + string option"
  getDomain :: string
  getUserAgent :: string

text \<open>
  The module-level variables of \<^verbatim>\<open>native.js\<close> (\<^verbatim>\<open>sessionUID\<close>, \<^verbatim>\<open>nativeSocket\<close>,
  \<^verbatim>\<open>initialPageUrl\<close>), the cache of the memoised \<^verbatim>\<open>getNativeSocket\<close>, the sockets the
  transport has created so far (a socket is its creation index) and the trace.
\<close>

record world =
  trace :: "event list"
  sessionUID :: "string option"
  nativeSocket :: "socket option"
  initialPageUrl :: "string option"
  getNativeSocket_cache :: "((string \<times> string option \<times> string) \<times> socket) list"
  sockets_created :: nat

type_synonym ('a, 'w) promise = "'w \<Rightarrow> (error + 'a) \<times> 'w"

definition resolve :: "'a \<Rightarrow> ('a, 'w) promise" where
  "resolve x = (\<lambda>w. (Inr x, w))"

definition reject :: "error \<Rightarrow> ('a, 'w) promise" where
  "reject e = (\<lambda>w. (Inl e, w))"

text \<open>\<^verbatim>\<open>p.then(f)\<close>: a rejection of \<open>p\<close> skips \<open>f\<close>.\<close>

definition then_p :: "('a, 'w) promise \<Rightarrow> ('a \<Rightarrow> ('b, 'w) promise) \<Rightarrow> ('b, 'w) promise" where
  "then_p p f = (\<lambda>w. case p w of (Inl e, w') \<Rightarrow> (Inl e, w') | (Inr x, w') \<Rightarrow> f x w')"

text \<open>\<^verbatim>\<open>p.then(f, g)\<close>: \<open>g\<close> handles a rejection of \<open>p\<close> only, not one of \<open>f\<close>.\<close>

definition then_else :: "('a, 'w) promise \<Rightarrow> ('a \<Rightarrow> ('b, 'w) promise) \<Rightarrow>
    (error \<Rightarrow> ('b, 'w) promise) \<Rightarrow> ('b, 'w) promise" where
  "then_else p f g = (\<lambda>w. case p w of (Inl e, w') \<Rightarrow> g e w' | (Inr x, w') \<Rightarrow> f x w')"

text \<open>\<^verbatim>\<open>p.catch(g)\<close>.\<close>

definition catch_p :: "('a, 'w) promise \<Rightarrow> (error \<Rightarrow> ('a, 'w) promise) \<Rightarrow> ('a, 'w) promise" where
  "catch_p p g = (\<lambda>w. case p w of (Inl e, w') \<Rightarrow> g e w' | (Inr x, w') \<Rightarrow> (Inr x, w'))"

text \<open>
  A call whose promise is dropped (\<^verbatim>\<open>close();\<close> as a statement): its effects happen,
  its outcome reaches nobody.
\<close>

definition detached :: "('a, 'w) promise \<Rightarrow> (unit, 'w) promise" where
  "detached p = (\<lambda>w. (Inr (), snd (p w)))"

definition emit :: "event \<Rightarrow> (unit, 'x world_scheme) promise" where
  "emit e = (\<lambda>w. (Inr (), w\<lparr>trace := trace w @ [e]\<rparr>))"

definition call :: "event \<Rightarrow> (event list \<Rightarrow> error + 'a) \<Rightarrow> ('a, 'x world_scheme) promise" where
  "call e oracle = (\<lambda>w. (oracle (trace w @ [e]), w\<lparr>trace := trace w @ [e]\<rparr>))"

text \<open>JavaScript truthiness of an optional string: absent and empty are both falsy.\<close>

definition truthy :: "string option \<Rightarrow> bool" where
  "truthy s = (case s of None \<Rightarrow> False | Some v \<Rightarrow> v \<noteq> [])"

section \<open>The wallet-capture flow (\<^verbatim>\<open>wallet-capture.js\<close>)\<close>

definition isWalletCapturePaymentEligible :: "service_data \<Rightarrow> payment \<Rightarrow> bool" where
  "isWalletCapturePaymentEligible serviceData payment =
    (if fundingSource payment \<noteq> PAYPAL then False
     else if win payment \<noteq> None then False
     else (case wallet serviceData of
       None \<Rightarrow> False
     | Some wal \<Rightarrow>
        (if \<not> truthy (instrumentID payment) then False
         else (case wal (fundingSource payment) of
           None \<Rightarrow> False
         | Some walletFunding \<Rightarrow>
            (case find (\<lambda>inst. inst_instrumentID inst = instrumentID payment)
                    (instruments walletFunding) of
               None \<Rightarrow> False
             | Some instrument \<Rightarrow>
                (if \<not> oneClick instrument then False
                 else if \<not> truthy (inst_type instrument) then False
                 else True))))))"

text \<open>
  What the closure returned by \<^verbatim>\<open>initWalletCapture\<close> has captured. \<^verbatim>\<open>props\<close>,
  \<^verbatim>\<open>components\<close>, \<^verbatim>\<open>serviceData\<close> and \<^verbatim>\<open>config\<close> are handed to \<^verbatim>\<open>checkout.init\<close>
  unchanged and are left out of the \<open>CheckoutInit\<close> event.
\<close>

record wallet_capture =
  wc_payment :: payment
  wc_buyerAccessToken :: string
  wc_instrumentID :: string
  wc_instrumentType :: string

definition initWalletCapture :: "service_data \<Rightarrow> payment \<Rightarrow> error + wallet_capture" where
  "initWalletCapture serviceData payment =
    (case instrumentID payment of
       None \<Rightarrow> Inl (Error ''Instrument id required for wallet capture'')
     | Some iid \<Rightarrow>
        (if iid = [] then Inl (Error ''Instrument id required for wallet capture'')
         else (case buyerAccessToken serviceData of
           None \<Rightarrow> Inl (Error ''Buyer access token required for wallet capture'')
         | Some token \<Rightarrow>
            (if token = [] then Inl (Error ''Buyer access token required for wallet capture'')
             else (case wallet serviceData of
               None \<Rightarrow> Inl (TypeError ''Cannot read property of undefined'')
             | Some wal \<Rightarrow>
                (case wal (fundingSource payment) of
                   None \<Rightarrow> Inl (Error ''Expected wallet to be present'')
                 | Some walletFunding \<Rightarrow>
                    (case find (\<lambda>inst. inst_instrumentID inst = Some iid)
                            (instruments walletFunding) of
                       None \<Rightarrow> Inl (Error ''Expected instrument to be present'')
                     | Some instrument \<Rightarrow>
                        (case inst_type instrument of
                           None \<Rightarrow> Inl (Error ''Expected instrumen type'')
                         | Some instrumentType \<Rightarrow>
                            (if instrumentType = [] then Inl (Error ''Expected instrumen type'')
                             else Inr \<lparr>wc_payment = payment, wc_buyerAccessToken = token,
                                       wc_instrumentID = iid,
                                       wc_instrumentType = instrumentType\<rparr>)))))))))"

definition wc_fallbackToWebCheckout :: "env \<Rightarrow> wallet_capture \<Rightarrow> (unit, 'x world_scheme) promise" where
  "wc_fallbackToWebCheckout ev c =
     then_p (emit (Log INFO ''web_checkout_fallback'' None)) (\<lambda>_.
     then_p (call (ExchangeAccessTokenForAuthCode (wc_buyerAccessToken c))
               (exchangeAccessTokenForAuthCode ev)) (\<lambda>code.
     then_p (emit (CheckoutInit ((wc_payment c)\<lparr>authCode := Some code, isClick := Some False,
               buyerIntent := Some PAY_WITH_DIFFERENT_FUNDING_SHIPPING\<rparr>))) (\<lambda>_.
     call (CheckoutStart ((wc_payment c)\<lparr>authCode := Some code, isClick := Some False,
               buyerIntent := Some PAY_WITH_DIFFERENT_FUNDING_SHIPPING\<rparr>)) (checkout_start ev))))"

definition shippingRequired :: "env \<Rightarrow> string \<Rightarrow> (bool, 'x world_scheme) promise" where
  "shippingRequired ev orderID =
     then_p (call (GetSupplementalOrderInfo orderID) (getSupplementalOrderInfo ev))
       (\<lambda>order.
          if \<not> isShippingAddressRequired order then resolve False
          else if (case shippingAddress order of None \<Rightarrow> False | Some a \<Rightarrow> isFullAddress a)
            then resolve False
          else resolve True)"

definition wc_start :: "env \<Rightarrow> wallet_capture \<Rightarrow> (unit, 'x world_scheme) promise" where
  "wc_start ev c =
     then_p (call CreateOrder (createOrder ev)) (\<lambda>orderID.
     then_p (shippingRequired ev orderID) (\<lambda>requireShipping.
       if requireShipping then wc_fallbackToWebCheckout ev c
       else then_else
         (call (OneClickApproveOrder orderID (wc_instrumentType c) (wc_buyerAccessToken c)
                  (wc_instrumentID c)) (oneClickApproveOrder ev))
         (\<lambda>pid. call (OnApprove \<lparr>payerID = Some pid, paymentID = None, billingToken = None,
                   isNativeTransaction = False\<rparr>) (onApprove ev))
         (\<lambda>err. then_p (emit (Log WARN ''approve_order_error'' (Some err))) (\<lambda>_.
                   wc_fallbackToWebCheckout ev c))))"

definition wc_close :: "(unit, 'w) promise" where
  "wc_close = resolve ()"

section \<open>The native flow (\<^verbatim>\<open>native.js\<close>)\<close>

subsection \<open>Module level: the session socket\<close>

definition modify :: "('w \<Rightarrow> 'w) \<Rightarrow> (unit, 'w) promise" where
  "modify f = (\<lambda>w. (Inr (), f w))"

text \<open>
  Modelled from the spec: \<^verbatim>\<open>firebaseSocket\<close> of \<^verbatim>\<open>src/api\<close> is not among the sources.
  By the spec it opens a message-socket session bound to the session identifier and the
  signalling configuration, with the capability \<^verbatim>\<open>send\<close>, \<^verbatim>\<open>on\<close>, \<^verbatim>\<open>reconnect\<close>,
  \<^verbatim>\<open>close\<close>, \<^verbatim>\<open>onError\<close>: each call makes a new socket, here numbered by creation.
\<close>

definition firebaseSocket :: "string \<times> string option \<times> string \<Rightarrow> (socket, 'x world_scheme) promise" where
  "firebaseSocket key = (\<lambda>w. case key of (uid, cfg, ver) \<Rightarrow>
     (Inr (sockets_created w),
      w\<lparr>trace := trace w @ [FirebaseSocket uid cfg ver],
        sockets_created := Suc (sockets_created w)\<rparr>))"

text \<open>
  \<^verbatim>\<open>getNativeSocket = memoize(...)\<close>: \<^verbatim>\<open>memoize\<close> is the \<^verbatim>\<open>belter\<close> library's, a cache
  keyed by the serialised arguments; the body runs only for arguments not seen before.
  \<^verbatim>\<open>uniqueID\<close>, of the same library, is an oracle of the environment.
\<close>

definition getNativeSocket :: "string \<times> string option \<times> string \<Rightarrow> (socket, 'x world_scheme) promise" where
  "getNativeSocket key = (\<lambda>w. case map_of (getNativeSocket_cache w) key of
       Some s \<Rightarrow> (Inr s, w)
     | None \<Rightarrow> then_p (firebaseSocket key) (\<lambda>s.
         then_p (modify (\<lambda>w'. w'\<lparr>getNativeSocket_cache := (key, s) # getNativeSocket_cache w'\<rparr>))
           (\<lambda>_. resolve s)) w)"

definition isNativeOptedIn :: "env \<Rightarrow> props \<Rightarrow> bool" where
  "isNativeOptedIn ev prps =
    (if enableNativeCheckout prps then True
     else (case localStorage_getItem ev ''__native_checkout__'' of
        Inr (Some v) \<Rightarrow> v \<noteq> []
      | Inr None \<Rightarrow> False
      | Inl err \<Rightarrow> False))"

definition isNativePaymentEligible :: "env \<Rightarrow> 'x world_scheme \<Rightarrow> payment \<Rightarrow> props \<Rightarrow> bool" where
  "isNativePaymentEligible ev w pay prps =
    (if win pay \<noteq> None then False
     else if fundingSource pay \<noteq> PAYPAL \<and> fundingSource pay \<noteq> VENMO then False
     else if nativeSocket w = None then False
     else if fundingSource pay = VENMO \<and> \<not> isNativeOptedIn ev prps then False
     else True)"

text \<open>The handler \<^verbatim>\<open>setupNative\<close> registers with \<^verbatim>\<open>nativeSocket.onError\<close>.\<close>

definition nativeSocket_onError :: "error \<Rightarrow> (unit, 'x world_scheme) promise" where
  "nativeSocket_onError err =
     then_p (modify (\<lambda>w. w\<lparr>nativeSocket := None\<rparr>)) (\<lambda>_.
     emit (Log ERROR ''native_socket_error'' (Some err)))"

definition setupNative :: "env \<Rightarrow> config \<Rightarrow> (unit, 'x world_scheme) promise" where
  "setupNative ev cfg =
     then_p (call UniqueID (\<lambda>h. Inr (uniqueID ev h))) (\<lambda>uid.
     then_p (modify (\<lambda>w. w\<lparr>sessionUID := Some uid\<rparr>)) (\<lambda>_.
     then_p (getNativeSocket (uid, firebase cfg, version cfg)) (\<lambda>s.
     then_p (modify (\<lambda>w. w\<lparr>nativeSocket := Some s\<rparr>)) (\<lambda>_.
     then_p (emit (SocketOnError s)) (\<lambda>_.
     then_p (call GetPageUrl (getPageUrl ev)) (\<lambda>pageUrl.
     modify (\<lambda>w. w\<lparr>initialPageUrl := Some pageUrl\<rparr>)))))))"

text \<open>The module as loaded: every variable undefined, nothing cached.\<close>

definition module_loaded :: world where
  "module_loaded = \<lparr>trace = [], sessionUID = None, nativeSocket = None, initialPageUrl = None,
     getNativeSocket_cache = [], sockets_created = 0\<rparr>"

subsection \<open>The app-switch popup\<close>

record app_switch_popup =
  asp_win :: "win option"
  appSwitched :: bool

definition appSwitchPopup :: "env \<Rightarrow> native_url \<Rightarrow> (app_switch_popup, 'x world_scheme) promise" where
  "appSwitchPopup ev url =
     then_else (call (Popup url) (popup ev))
       (\<lambda>wn. resolve \<lparr>asp_win = Some wn, appSwitched = False\<rparr>)
       (\<lambda>err. if (case err of PopupOpenError m \<Rightarrow> True | Error m \<Rightarrow> False | TypeError m \<Rightarrow> False)
                   \<and> isIos ev \<and> isSafari ev
               then resolve \<lparr>asp_win = None, appSwitched = True\<rparr>
               else reject err)"

definition didSwitch :: "env \<Rightarrow> app_switch_popup \<Rightarrow> (bool, 'x world_scheme) promise" where
  "didSwitch ev a = (\<lambda>w.
     (Inr (if appSwitched a then True
           else if isAndroid ev \<and> isChrome ev \<and>
                   (case asp_win a of None \<Rightarrow> False | Some wn \<Rightarrow> isWindowClosed ev (trace w) wn)
             then True
           else False), w))"

definition appSwitch_close :: "app_switch_popup \<Rightarrow> (unit, 'x world_scheme) promise" where
  "appSwitch_close a = (case asp_win a of Some wn \<Rightarrow> emit (WinClose wn) | None \<Rightarrow> resolve ())"

subsection \<open>One flow instance: the closure of \<^verbatim>\<open>initNative\<close>\<close>

text \<open>
  The sub-instance the returned \<^verbatim>\<open>close\<close> delegates to: the initial
  \<^verbatim>\<open>{ close: promiseNoop }\<close>, the object \<^verbatim>\<open>connectNative\<close> returns for a socket, or the
  checkout instance \<^verbatim>\<open>fallbackToWebCheckout\<close> creates.
\<close>

datatype sub_instance = PromiseNoop | NativeConnection socket | CheckoutInstance payment

text \<open>
  The world as one closure of \<^verbatim>\<open>initNative\<close> sees it: the module's variables and the
  closure's own (\<^verbatim>\<open>instance\<close> as \<open>current_instance\<close>, \<^verbatim>\<open>appSwitch\<close>, and the cache of the memoised \<^verbatim>\<open>start\<close>).
\<close>

record native_world = world +
  current_instance :: sub_instance
  appSwitch :: "app_switch_popup option"
  start_cache :: "(error + unit) option"

record init_options =
  io_props :: props
  io_payment :: payment
  io_serviceData :: service_data

definition initNative :: "world \<Rightarrow> native_world" where
  "initNative w = \<lparr>trace = trace w, sessionUID = sessionUID w, nativeSocket = nativeSocket w,
     initialPageUrl = initialPageUrl w, getNativeSocket_cache = getNativeSocket_cache w,
     sockets_created = sockets_created w,
     current_instance = PromiseNoop, appSwitch = None, start_cache = None\<rparr>"

definition checkoutPayment :: "init_options \<Rightarrow> win option \<Rightarrow> string option \<Rightarrow>
    string option \<Rightarrow> payment" where
  "checkoutPayment opts wn token payloadID =
     (io_payment opts)\<lparr>pay_buyerAccessToken := token, venmoPayloadID := payloadID, win := wn,
       isClick := Some False\<rparr>"

definition fallbackToWebCheckout :: "env \<Rightarrow> init_options \<Rightarrow> win option \<Rightarrow> string option \<Rightarrow>
    string option \<Rightarrow> (unit, native_world) promise" where
  "fallbackToWebCheckout ev opts wn token payloadID =
     then_p (emit (CheckoutInit (checkoutPayment opts wn token payloadID))) (\<lambda>_.
     then_p (modify (\<lambda>w. w\<lparr>current_instance :=
               CheckoutInstance (checkoutPayment opts wn token payloadID)\<rparr>)) (\<lambda>_.
     call (CheckoutStart (checkoutPayment opts wn token payloadID)) (checkout_start ev)))"

definition getNativeUrl :: "env \<Rightarrow> init_options \<Rightarrow> 'x world_scheme \<Rightarrow> native_url" where
  "getNativeUrl ev opts w =
     \<lparr>nu_domain = (if fundingSource (io_payment opts) = VENMO then ''https://www.paypal.com''
                   else getDomain ev),
      nu_fundingSource = fundingSource (io_payment opts),
      nu_sessionUID = sessionUID w,
      nu_buttonSessionID = buttonSessionID (io_props opts),
      nu_pageUrl = initialPageUrl w\<rparr>"

definition getWebCheckoutFallbackUrl :: "env \<Rightarrow> init_options \<Rightarrow> string \<Rightarrow> web_url" where
  "getWebCheckoutFallbackUrl ev opts orderID =
     \<lparr>wu_domain = getDomain ev,
      wu_fundingSource = fundingSource (io_payment opts),
      wu_facilitatorAccessToken = facilitatorAccessToken (io_serviceData opts),
      wu_token = orderID,
      wu_useraction_commit = commit (io_props opts),
      wu_native_xo = ''1'',
      wu_venmoOverride = (if fundingSource (io_payment opts) = VENMO then ''1'' else ''0'')\<rparr>"

text \<open>
  \<^verbatim>\<open>ZalgoPromise.hash\<close>: both calls are made at once; the result needs both answers.
\<close>

definition getSDKProps :: "env \<Rightarrow> init_options \<Rightarrow> (sdk_props, 'x world_scheme) promise" where
  "getSDKProps ev opts = (\<lambda>w.
     case call CreateOrder (createOrder ev) w of (r1, w1) \<Rightarrow>
     (case call GetPageUrl (getPageUrl ev) w1 of (r2, w2) \<Rightarrow>
       ((case r1 of
           Inl e \<Rightarrow> Inl e
         | Inr orderID \<Rightarrow>
            (case r2 of
               Inl e \<Rightarrow> Inl e
             | Inr pageUrl \<Rightarrow> Inr
                \<lparr>sp_orderID = orderID,
                 sp_facilitatorAccessToken = facilitatorAccessToken (io_serviceData opts),
                 sp_pageUrl = pageUrl,
                 sp_commit = commit (io_props opts),
                 sp_webCheckoutUrl = getWebCheckoutFallbackUrl ev opts orderID,
                 sp_userAgent = getUserAgent ev,
                 sp_buttonSessionID = buttonSessionID (io_props opts),
                 sp_env = props_env (io_props opts),
                 sp_stageHost = stageHost (io_props opts),
                 sp_apiStageHost = apiStageHost (io_props opts),
                 sp_forceEligible = isNativeOptedIn ev (io_props opts)\<rparr>)), w2)))"

text \<open>
  \<^verbatim>\<open>connectNative\<close> registers the five handlers and reconnects; the object it returns
  (\<^verbatim>\<open>setProps\<close>, \<^verbatim>\<open>close\<close>) is determined by the socket.
\<close>

definition connectNative :: "(socket, 'x world_scheme) promise" where
  "connectNative = (\<lambda>w. case nativeSocket w of
       None \<Rightarrow> reject (Error ''Native socket connection not established'') w
     | Some s \<Rightarrow>
        then_p (emit (SocketOn s GET_PROPS)) (\<lambda>_.
        then_p (emit (SocketOn s ON_APPROVE)) (\<lambda>_.
        then_p (emit (SocketOn s ON_CANCEL)) (\<lambda>_.
        then_p (emit (SocketOn s ON_ERROR)) (\<lambda>_.
        then_p (emit (SocketOn s FALLBACK)) (\<lambda>_.
        then_p (emit (SocketReconnect s)) (\<lambda>_.
        resolve s)))))) w)"

definition setProps :: "env \<Rightarrow> init_options \<Rightarrow> socket \<Rightarrow> (unit, 'x world_scheme) promise" where
  "setProps ev opts s =
     then_p (then_p (getSDKProps ev opts) (\<lambda>sdkProps.
       then_p (emit (Log INFO ''native_message_setprops'' None)) (\<lambda>_.
       call (SocketSend s SET_PROPS (Some sdkProps)) (socket_send ev)))) (\<lambda>_.
     emit (Log INFO ''native_response_setprops'' None))"

text \<open>
  \<^verbatim>\<open>closeNative\<close> in two halves: the part that runs at once (the log and the send) and
  the continuation that runs when the send is acknowledged.
\<close>

definition closeNative_send :: "env \<Rightarrow> socket \<Rightarrow> (error + unit, 'x world_scheme) promise" where
  "closeNative_send ev s =
     then_p (emit (Log INFO ''native_message_close'' None)) (\<lambda>_.
     (\<lambda>w. (Inr (socket_send ev (trace w @ [SocketSend s CLOSE None])),
           w\<lparr>trace := trace w @ [SocketSend s CLOSE None]\<rparr>)))"

definition closeNative_ack :: "socket \<Rightarrow> error + unit \<Rightarrow> (unit, 'x world_scheme) promise" where
  "closeNative_ack s ack = (case ack of
       Inl e \<Rightarrow> reject e
     | Inr u \<Rightarrow> then_p (emit (Log INFO ''native_response_close'' None)) (\<lambda>_.
                emit (SocketClose s)))"

definition closeNative :: "env \<Rightarrow> socket \<Rightarrow> (unit, 'x world_scheme) promise" where
  "closeNative ev s = then_p (closeNative_send ev s) (closeNative_ack s)"

text \<open>
  The handlers \<^verbatim>\<open>connectNative\<close> registers, by the message that triggers them. The
  \<^verbatim>\<open>restart\<close> action handed to \<^verbatim>\<open>onApprove\<close> is the merchant's to call and is not run
  here.
\<close>

datatype incoming =
    GetProps
  | Approve "string option" "string option" "string option"
  | Cancel
  | Failure string
  | Fallback "string option" "string option"

definition native_message :: "env \<Rightarrow> init_options \<Rightarrow> socket \<Rightarrow> incoming \<Rightarrow>
    (sdk_props option, native_world) promise" where
  "native_message ev opts s m = (case m of
       GetProps \<Rightarrow>
         then_p (emit (Log INFO ''native_message_getprops'' None)) (\<lambda>_.
         then_p (getSDKProps ev opts) (\<lambda>sdkProps. resolve (Some sdkProps)))
     | Approve pid payid token \<Rightarrow>
         then_p (emit (Log INFO ''native_message_onapprove'' None)) (\<lambda>_.
         then_p (emit (SocketClose s)) (\<lambda>_.
         then_p (call (OnApprove \<lparr>payerID = pid, paymentID = payid, billingToken = token,
                   isNativeTransaction = True\<rparr>) (onApprove ev)) (\<lambda>_. resolve None)))
     | Cancel \<Rightarrow>
         then_p (emit (Log INFO ''native_message_oncancel'' None)) (\<lambda>_.
         then_p (emit (SocketClose s)) (\<lambda>_.
         then_p (call OnCancel (onCancel ev)) (\<lambda>_. resolve None)))
     | Failure msg \<Rightarrow>
         then_p (emit (Log INFO ''native_message_onerror'' (Some (Error msg)))) (\<lambda>_.
         then_p (emit (SocketClose s)) (\<lambda>_.
         then_p (call (OnError (Error msg)) (onError ev)) (\<lambda>_. resolve None)))
     | Fallback token payloadID \<Rightarrow>
         then_p (emit (Log INFO ''native_message_fallback'' None)) (\<lambda>_.
         then_p (emit (SocketClose s)) (\<lambda>_.
         then_p (fallbackToWebCheckout ev opts None token payloadID) (\<lambda>_. resolve None))))"

definition native_open :: "env \<Rightarrow> init_options \<Rightarrow> (unit, native_world) promise" where
  "native_open ev opts = (\<lambda>w.
     then_p (appSwitchPopup ev (getNativeUrl ev opts w)) (\<lambda>a.
     modify (\<lambda>w'. w'\<lparr>appSwitch := Some a\<rparr>)) w)"

text \<open>Reading \<^verbatim>\<open>appSwitch.didSwitch\<close> while \<^verbatim>\<open>appSwitch\<close> is still undefined throws.\<close>

definition appSwitch_deref :: "(app_switch_popup, native_world) promise" where
  "appSwitch_deref = (\<lambda>w. case appSwitch w of
       None \<Rightarrow> (Inl (TypeError ''appSwitch is undefined''), w)
     | Some a \<Rightarrow> (Inr a, w))"

text \<open>
  The closure's own \<^verbatim>\<open>close\<close> (not the one the instance exports). The promise of
  \<^verbatim>\<open>connectNative().close()\<close> is dropped: its send happens at once, the popup is closed
  next, and the socket is released when the acknowledgement arrives.
\<close>

definition native_close :: "env \<Rightarrow> (unit, native_world) promise" where
  "native_close ev =
     then_p (emit (Delay 500)) (\<lambda>_.
     then_p appSwitch_deref (\<lambda>a.
     then_p (didSwitch ev a) (\<lambda>switched.
       if switched
       then then_p connectNative (\<lambda>s.
            then_p (closeNative_send ev s) (\<lambda>ack.
            then_p (appSwitch_close a) (\<lambda>_.
            detached (closeNative_ack s ack))))
       else appSwitch_close a)))"

definition native_click :: "env \<Rightarrow> init_options \<Rightarrow> (unit, native_world) promise" where
  "native_click ev opts =
     then_p (native_open ev opts) (\<lambda>_.
     then_else
       (case onClick ev of
          None \<Rightarrow> resolve True
        | Some f \<Rightarrow> call (OnClick (fundingSource (io_payment opts))) f)
       (\<lambda>valid. if \<not> valid then detached (native_close ev) else resolve ())
       (\<lambda>err. then_p (detached (native_close ev)) (\<lambda>_. reject err)))"

text \<open>
  The body of \<^verbatim>\<open>start\<close>: the chain that \<^verbatim>\<open>createOrder().then(...)\<close> builds, and the
  \<^verbatim>\<open>catch\<close> around it.
\<close>

definition native_start_attempt :: "env \<Rightarrow> init_options \<Rightarrow> (unit, native_world) promise" where
  "native_start_attempt ev opts =
     then_p (call CreateOrder (createOrder ev)) (\<lambda>_.
     then_p appSwitch_deref (\<lambda>a.
     then_p (didSwitch ev a) (\<lambda>switched.
       if switched
       then then_p (emit (Log INFO ''native_app_switch'' None)) (\<lambda>_.
            then_p connectNative (\<lambda>s.
            then_p (modify (\<lambda>w. w\<lparr>current_instance := NativeConnection s\<rparr>)) (\<lambda>_.
            setProps ev opts s)))
       else then_p (emit (Log INFO ''native_app_web_fallback'' None)) (\<lambda>_.
            fallbackToWebCheckout ev opts (asp_win a) None None))))"

definition native_start_body :: "env \<Rightarrow> init_options \<Rightarrow> (unit, native_world) promise" where
  "native_start_body ev opts =
     catch_p (native_start_attempt ev opts)
       (\<lambda>err. then_p (detached (native_close ev)) (\<lambda>_. reject err))"

text \<open>
  \<^verbatim>\<open>start = memoize(...)\<close>, called without arguments: the first call runs the body and
  caches the promise it returns, every later call returns the cached promise.
\<close>

definition native_start :: "env \<Rightarrow> init_options \<Rightarrow> (unit, native_world) promise" where
  "native_start ev opts = (\<lambda>w. case start_cache w of
       Some r \<Rightarrow> (r, w)
     | None \<Rightarrow> (case native_start_body ev opts w of
                  (r, w') \<Rightarrow> (r, w'\<lparr>start_cache := Some r\<rparr>)))"

text \<open>The \<^verbatim>\<open>close\<close> the instance exports: \<^verbatim>\<open>() => instance.close()\<close>.\<close>

definition instance_close :: "env \<Rightarrow> (unit, native_world) promise" where
  "instance_close ev = (\<lambda>w. case current_instance w of
       PromiseNoop \<Rightarrow> resolve () w
     | NativeConnection s \<Rightarrow> closeNative ev s w
     | CheckoutInstance p \<Rightarrow> call (CheckoutClose p) (checkout_close ev) w)"

subsection \<open>What can happen to an instance before \<^verbatim>\<open>start\<close>\<close>

text \<open>
  Before \<^verbatim>\<open>start\<close> is called the instance can be clicked and closed, a handler that
  \<^verbatim>\<open>connectNative\<close> registered can receive a message, and the merchant can call the
  \<^verbatim>\<open>restart\<close> action that the approve handler passes to \<^verbatim>\<open>onApprove\<close>. Around the
  instance, the socket's error handler can fire and \<^verbatim>\<open>setupNative\<close> can run again.
\<close>

datatype pre_start_op =
    Click
  | Close
  | Message socket incoming
  | Restart
  | SocketError error
  | Setup config

fun run_op :: "env \<Rightarrow> init_options \<Rightarrow> pre_start_op \<Rightarrow> native_world \<Rightarrow> native_world" where
  "run_op ev opts Click w = snd (native_click ev opts w)"
| "run_op ev opts Close w = snd (instance_close ev w)"
| "run_op ev opts (Message s m) w = snd (native_message ev opts s m w)"
| "run_op ev opts Restart w = snd (fallbackToWebCheckout ev opts None None None w)"
| "run_op ev opts (SocketError err) w = snd (nativeSocket_onError err w)"
| "run_op ev opts (Setup cfg) w = snd (setupNative ev cfg w)"

fun run_ops :: "env \<Rightarrow> init_options \<Rightarrow> pre_start_op list \<Rightarrow> native_world \<Rightarrow> native_world" where
  "run_ops ev opts [] w = w"
| "run_ops ev opts (x # xs) w = run_ops ev opts xs (run_op ev opts x w)"

section \<open>Vocabulary of the properties\<close>




text \<open>An operation keeps a component of the world when it leaves it as it found it.\<close>

definition keeps :: "('w \<Rightarrow> 'b) \<Rightarrow> ('a, 'w) promise \<Rightarrow> bool" where
  "keeps f p = (\<forall>w. f (snd (p w)) = f w)"

text \<open>
  An operation emits \<open>Q\<close> when it only ever appends to the trace, and what it appends
  satisfies \<open>Q\<close>.
\<close>

definition emits :: "(event list \<Rightarrow> bool) \<Rightarrow> ('a, 'x world_scheme) promise \<Rightarrow> bool" where
  "emits Q p = (\<forall>w. \<exists>es. trace (snd (p w)) = trace w @ es \<and> Q es)"

definition appendable :: "(event list \<Rightarrow> bool) \<Rightarrow> bool" where
  "appendable Q = (Q [] \<and> (\<forall>xs ys. Q xs \<and> Q ys \<longrightarrow> Q (xs @ ys)))"

text \<open>The session socket as the module holds it, and how many sockets exist.\<close>

definition socket_state :: "'x world_scheme \<Rightarrow> socket option \<times> nat" where
  "socket_state w = (nativeSocket w, sockets_created w)"

text \<open>What \<^verbatim>\<open>connectNative\<close> adds to the trace when the socket is there.\<close>

definition connectNative_events :: "socket \<Rightarrow> event list" where
  "connectNative_events s = [SocketOn s GET_PROPS, SocketOn s ON_APPROVE, SocketOn s ON_CANCEL,
     SocketOn s ON_ERROR, SocketOn s FALLBACK, SocketReconnect s]"

definition sends_to :: "socket \<Rightarrow> event \<Rightarrow> bool" where
  "sends_to s e = (case e of SocketSend s' m p \<Rightarrow> m \<noteq> SET_PROPS \<or> s' = s | _ \<Rightarrow> True)"

definition is_setProps :: "event \<Rightarrow> bool" where
  "is_setProps e = (case e of SocketSend s m p \<Rightarrow> m = SET_PROPS | _ \<Rightarrow> False)"

text \<open>A stretch of trace is quiet when it holds no \<^verbatim>\<open>setProps\<close> message.\<close>

definition quiet :: "event list \<Rightarrow> bool" where
  "quiet es = list_all (\<lambda>e. \<not> is_setProps e) es"

text \<open>
  A stretch of trace is ready when each \<^verbatim>\<open>setProps\<close> message in it comes after the
  registrations and the reconnect of \<^verbatim>\<open>connectNative\<close> on the same socket.
\<close>

definition ready :: "event list \<Rightarrow> bool" where
  "ready es = (\<forall>pre s p post. es = pre @ SocketSend s SET_PROPS p # post \<longrightarrow>
     (\<exists>a b. pre = a @ connectNative_events s @ b))"

section \<open>Concrete sessions\<close>

text \<open>
  An environment in which every external call succeeds, on Android Chrome with the popup
  staying open, and the wallet of the spec's scenario: one PayPal instrument \<open>I1\<close> of
  type \<open>card\<close>.
\<close>

definition demo_env :: env where
  "demo_env = \<lparr>
     createOrder = (\<lambda>h. Inr ''O1''),
     getSupplementalOrderInfo =
       (\<lambda>h. Inr \<lparr>isShippingAddressRequired = False, shippingAddress = None\<rparr>),
     exchangeAccessTokenForAuthCode = (\<lambda>h. Inr ''A1''),
     oneClickApproveOrder = (\<lambda>h. Inr ''P1''),
     onApprove = (\<lambda>h. Inr ()),
     onCancel = (\<lambda>h. Inr ()),
     onError = (\<lambda>h. Inr ()),
     onClick = None,
     getPageUrl = (\<lambda>h. Inr ''https://merchant.example/cart''),
     checkout_start = (\<lambda>h. Inr ()),
     checkout_close = (\<lambda>h. Inr ()),
     socket_send = (\<lambda>h. Inr ()),
     popup = (\<lambda>h. Inr 0),
     isWindowClosed = (\<lambda>h w. False),
     uniqueID = (\<lambda>h. ''uid'' @ replicate (length h) CHR ''x''),
     isIos = False, isSafari = False, isAndroid = True, isChrome = True,
     localStorage_getItem = (\<lambda>k. Inr None),
     getDomain = ''https://www.paypal.com'',
     getUserAgent = ''Mozilla/5.0''\<rparr>"

definition demo_payment :: "string \<Rightarrow> payment" where
  "demo_payment iid = \<lparr>win = None, fundingSource = PAYPAL, instrumentID = Some iid,
     authCode = None, isClick = None, buyerIntent = None, pay_buyerAccessToken = None,
     venmoPayloadID = None\<rparr>"

definition demo_wallet :: "bool \<Rightarrow> wallet" where
  "demo_wallet oc = (\<lambda>f. if f = PAYPAL
     then Some \<lparr>instruments =
       [\<lparr>inst_instrumentID = Some ''I1'', inst_type = Some ''card'', oneClick = oc\<rparr>]\<rparr>
     else None)"

definition demo_service :: "bool \<Rightarrow> service_data" where
  "demo_service oc = \<lparr>buyerAccessToken = Some ''T1'', wallet = Some (demo_wallet oc),
     facilitatorAccessToken = ''F1''\<rparr>"

definition demo_capture :: wallet_capture where
  "demo_capture = \<lparr>wc_payment = demo_payment ''I1'', wc_buyerAccessToken = ''T1'',
     wc_instrumentID = ''I1'', wc_instrumentType = ''card''\<rparr>"

definition demo_options :: init_options where
  "demo_options = \<lparr>io_props = \<lparr>enableNativeCheckout = False, commit = True,
       buttonSessionID = ''B1'', props_env = ''production'', stageHost = None,
       apiStageHost = None\<rparr>,
     io_payment = demo_payment ''I1'', io_serviceData = demo_service True\<rparr>"

definition demo_config :: config where
  "demo_config = \<lparr>version = ''5.0'', firebase = Some ''fb''\<rparr>"

definition demo_env_shipping :: "bool \<Rightarrow> env" where
  "demo_env_shipping full = demo_env\<lparr>getSupplementalOrderInfo := (\<lambda>h. Inr
     \<lparr>isShippingAddressRequired = True, shippingAddress = Some \<lparr>isFullAddress = full\<rparr>\<rparr>)\<rparr>"

definition demo_env_declined :: env where
  "demo_env_declined = demo_env\<lparr>oneClickApproveOrder := (\<lambda>h. Inl (Error ''declined''))\<rparr>"

text \<open>
  Further sessions: one in which \<^verbatim>\<open>uniqueID\<close> repeats itself, one in which the popup is
  found closed (the native app took over), the world after setup, init and a click, and
  the world after a switched start.
\<close>

definition demo_env_same_uid :: env where
  "demo_env_same_uid = demo_env\<lparr>uniqueID := (\<lambda>h. ''uid'')\<rparr>"

definition demo_clicked :: native_world where
  "demo_clicked = snd (native_click demo_env demo_options
     (initNative (snd (setupNative demo_env demo_config module_loaded))))"

definition demo_env_switched :: env where
  "demo_env_switched = demo_env\<lparr>isWindowClosed := (\<lambda>h wn. True)\<rparr>"

definition demo_popup_url :: native_url where
  "demo_popup_url = \<lparr>nu_domain = ''https://www.paypal.com'', nu_fundingSource = PAYPAL,
     nu_sessionUID = Some ''uidx'', nu_buttonSessionID = ''B1'',
     nu_pageUrl = Some ''https://merchant.example/cart''\<rparr>"

definition demo_sdk_props :: sdk_props where
  "demo_sdk_props = \<lparr>sp_orderID = ''O1'', sp_facilitatorAccessToken = ''F1'',
     sp_pageUrl = ''https://merchant.example/cart'', sp_commit = True,
     sp_webCheckoutUrl = \<lparr>wu_domain = ''https://www.paypal.com'', wu_fundingSource = PAYPAL,
       wu_facilitatorAccessToken = ''F1'', wu_token = ''O1'', wu_useraction_commit = True,
       wu_native_xo = ''1'', wu_venmoOverride = ''0''\<rparr>,
     sp_userAgent = ''Mozilla/5.0'', sp_buttonSessionID = ''B1'', sp_env = ''production'',
     sp_stageHost = None, sp_apiStageHost = None, sp_forceEligible = False\<rparr>"

definition demo_switched :: native_world where
  "demo_switched = snd (native_start demo_env_switched demo_options demo_clicked)"

text \<open>
  A wallet that holds the instrument \<open>I1\<close> twice, differing in \<^verbatim>\<open>oneClick\<close>; a session in
  which the merchant's \<^verbatim>\<open>onClick\<close> refuses, the popup is found closed, the native app does
  not acknowledge and the checkout's close fails; the world that session leaves when a
  click is followed by a fallback message; the initialised instance; and the world after a
  start without a switch.
\<close>

definition demo_wallet_twice :: "bool \<Rightarrow> wallet" where
  "demo_wallet_twice oc = (\<lambda>f. if f = PAYPAL
     then Some \<lparr>instruments =
       [\<lparr>inst_instrumentID = Some ''I1'', inst_type = Some ''card'', oneClick = oc\<rparr>,
        \<lparr>inst_instrumentID = Some ''I1'', inst_type = Some ''card'', oneClick = \<not> oc\<rparr>]\<rparr>
     else None)"

definition demo_service_twice :: "bool \<Rightarrow> service_data" where
  "demo_service_twice oc = \<lparr>buyerAccessToken = Some ''T1'', wallet = Some (demo_wallet_twice oc),
     facilitatorAccessToken = ''F1''\<rparr>"



definition demo_initialised :: native_world where
  "demo_initialised = initNative (snd (setupNative demo_env demo_config module_loaded))"


section \<open>Unfolding the promise combinators\<close>

lemmas promise_defs = resolve_def reject_def then_p_def then_else_def catch_p_def detached_def
  emit_def call_def modify_def

section \<open>Wallet capture: eligibility of a payment\<close>

lemma find_None_ball: "(find P xs = None) = (\<forall>x\<in>set xs. \<not> P x)"
  by (induction xs) auto

lemma find_distinct_member:
  "distinct (map f xs) \<Longrightarrow> x \<in> set xs \<Longrightarrow> find (\<lambda>y. f y = f x) xs = Some x"
  by (induction xs) force+

text \<open>
  C8, as amended. \<^verbatim>\<open>isWalletCapturePaymentEligible\<close> returns true when the funding source
  is PAYPAL, \<^verbatim>\<open>win\<close> is unset and the first instrument of the wallet's entry for the
  funding source that carries the selected (non-empty) \<^verbatim>\<open>instrumentID\<close>, the one
  \<^verbatim>\<open>Array.find\<close> returns, has a non-empty type and \<^verbatim>\<open>oneClick\<close> true; it returns false
  whenever no instrument of the entry carries the selected \<^verbatim>\<open>instrumentID\<close>, and whenever
  that first matching instrument lacks \<^verbatim>\<open>oneClick\<close>. When the identifiers of the entry
  are distinct, the first matching instrument is any instrument of the entry with the
  selected \<^verbatim>\<open>instrumentID\<close>.
\<close>

theorem isWalletCapturePaymentEligible_cases:
  "(fundingSource pay = PAYPAL \<and> win pay = None \<and> truthy (instrumentID pay) \<and>
      wallet sd = Some wal \<and> wal PAYPAL = Some entry \<and>
      find (\<lambda>inst. inst_instrumentID inst = instrumentID pay) (instruments entry) = Some inst \<and>
      truthy (inst_type inst) \<and> oneClick inst
        \<longrightarrow> isWalletCapturePaymentEligible sd pay)
   \<and> ((\<forall>wal' entry'. wallet sd = Some wal' \<and> wal' (fundingSource pay) = Some entry'
           \<longrightarrow> (\<forall>i \<in> set (instruments entry'). inst_instrumentID i \<noteq> instrumentID pay))
        \<longrightarrow> \<not> isWalletCapturePaymentEligible sd pay)
   \<and> (wallet sd = Some wal \<and> wal (fundingSource pay) = Some entry \<and>
      find (\<lambda>inst. inst_instrumentID inst = instrumentID pay) (instruments entry) = Some inst \<and>
      \<not> oneClick inst
        \<longrightarrow> \<not> isWalletCapturePaymentEligible sd pay)
   \<and> (fundingSource pay = PAYPAL \<and> win pay = None \<and> truthy (instrumentID pay) \<and>
      wallet sd = Some wal \<and> wal PAYPAL = Some entry \<and>
      distinct (map inst_instrumentID (instruments entry)) \<and>
      inst \<in> set (instruments entry) \<and> inst_instrumentID inst = instrumentID pay \<and>
      truthy (inst_type inst) \<and> oneClick inst
        \<longrightarrow> isWalletCapturePaymentEligible sd pay)
   \<and> (wallet sd = Some wal \<and> wal (fundingSource pay) = Some entry \<and>
      distinct (map inst_instrumentID (instruments entry)) \<and>
      inst \<in> set (instruments entry) \<and> inst_instrumentID inst = instrumentID pay \<and>
      \<not> oneClick inst
        \<longrightarrow> \<not> isWalletCapturePaymentEligible sd pay)"
proof (intro conjI impI)
  assume "fundingSource pay = PAYPAL \<and> win pay = None \<and> truthy (instrumentID pay) \<and>
      wallet sd = Some wal \<and> wal PAYPAL = Some entry \<and>
      find (\<lambda>inst. inst_instrumentID inst = instrumentID pay) (instruments entry) = Some inst \<and>
      truthy (inst_type inst) \<and> oneClick inst"
  then show "isWalletCapturePaymentEligible sd pay"
    by (simp add: isWalletCapturePaymentEligible_def)
next
  assume absent: "\<forall>wal' entry'. wallet sd = Some wal' \<and> wal' (fundingSource pay) = Some entry'
           \<longrightarrow> (\<forall>i \<in> set (instruments entry'). inst_instrumentID i \<noteq> instrumentID pay)"
  show "\<not> isWalletCapturePaymentEligible sd pay"
  proof
    assume "isWalletCapturePaymentEligible sd pay"
    then obtain wal' entry' i where "wallet sd = Some wal'" "wal' (fundingSource pay) = Some entry'"
      "find (\<lambda>inst. inst_instrumentID inst = instrumentID pay) (instruments entry') = Some i"
      by (auto simp: isWalletCapturePaymentEligible_def split: if_splits option.splits)
    note found = this
    from absent found(1,2)
    have "\<forall>i \<in> set (instruments entry'). inst_instrumentID i \<noteq> instrumentID pay"
      by blast
    then have "find (\<lambda>inst. inst_instrumentID inst = instrumentID pay) (instruments entry') = None"
      by (simp add: find_None_ball)
    with found(3) show False by simp
  qed
next
  assume "wallet sd = Some wal \<and> wal (fundingSource pay) = Some entry \<and>
      find (\<lambda>inst. inst_instrumentID inst = instrumentID pay) (instruments entry) = Some inst \<and>
      \<not> oneClick inst"
  then show "\<not> isWalletCapturePaymentEligible sd pay"
    by (clarsimp simp: isWalletCapturePaymentEligible_def)
next
  assume h: "fundingSource pay = PAYPAL \<and> win pay = None \<and> truthy (instrumentID pay) \<and>
      wallet sd = Some wal \<and> wal PAYPAL = Some entry \<and>
      distinct (map inst_instrumentID (instruments entry)) \<and>
      inst \<in> set (instruments entry) \<and> inst_instrumentID inst = instrumentID pay \<and>
      truthy (inst_type inst) \<and> oneClick inst"
  then have d: "distinct (map inst_instrumentID (instruments entry))"
    and m: "inst \<in> set (instruments entry)"
    and e: "inst_instrumentID inst = instrumentID pay"
    by simp_all
  from find_distinct_member [OF d m] e
  have "find (\<lambda>y. inst_instrumentID y = instrumentID pay) (instruments entry) = Some inst"
    by simp
  with h show "isWalletCapturePaymentEligible sd pay"
    by (simp add: isWalletCapturePaymentEligible_def)
next
  assume h: "wallet sd = Some wal \<and> wal (fundingSource pay) = Some entry \<and>
      distinct (map inst_instrumentID (instruments entry)) \<and>
      inst \<in> set (instruments entry) \<and> inst_instrumentID inst = instrumentID pay \<and>
      \<not> oneClick inst"
  then have d: "distinct (map inst_instrumentID (instruments entry))"
    and m: "inst \<in> set (instruments entry)"
    and e: "inst_instrumentID inst = instrumentID pay"
    by simp_all
  from find_distinct_member [OF d m] e
  have "find (\<lambda>y. inst_instrumentID y = instrumentID pay) (instruments entry) = Some inst"
    by simp
  with h show "\<not> isWalletCapturePaymentEligible sd pay"
    by (clarsimp simp: isWalletCapturePaymentEligible_def)
qed

theorem isWalletCapturePaymentEligible_witness:
  "isWalletCapturePaymentEligible (demo_service True) (demo_payment ''I1'')
   \<and> \<not> isWalletCapturePaymentEligible (demo_service True) (demo_payment ''I2'')
   \<and> \<not> isWalletCapturePaymentEligible (demo_service False) (demo_payment ''I1'')"
proof (intro conjI)
  let ?card = "\<lparr>inst_instrumentID = Some ''I1'', inst_type = Some ''card'', oneClick = True\<rparr>"
  have found: "fundingSource (demo_payment ''I1'') = PAYPAL \<and> win (demo_payment ''I1'') = None \<and>
      truthy (instrumentID (demo_payment ''I1'')) \<and>
      wallet (demo_service True) = Some (demo_wallet True) \<and>
      demo_wallet True PAYPAL = Some \<lparr>instruments = [?card]\<rparr> \<and>
      find (\<lambda>inst. inst_instrumentID inst = instrumentID (demo_payment ''I1''))
        (instruments \<lparr>instruments = [?card]\<rparr>) = Some ?card \<and>
      truthy (inst_type ?card) \<and> oneClick ?card"
    by (simp add: demo_payment_def demo_service_def demo_wallet_def truthy_def)
  have member: "fundingSource (demo_payment ''I1'') = PAYPAL \<and> win (demo_payment ''I1'') = None \<and>
      truthy (instrumentID (demo_payment ''I1'')) \<and>
      wallet (demo_service True) = Some (demo_wallet True) \<and>
      demo_wallet True PAYPAL = Some \<lparr>instruments = [?card]\<rparr> \<and>
      distinct (map inst_instrumentID (instruments \<lparr>instruments = [?card]\<rparr>)) \<and>
      ?card \<in> set (instruments \<lparr>instruments = [?card]\<rparr>) \<and>
      inst_instrumentID ?card = instrumentID (demo_payment ''I1'') \<and>
      truthy (inst_type ?card) \<and> oneClick ?card"
    by (simp add: demo_payment_def demo_service_def demo_wallet_def truthy_def)
  from member have "isWalletCapturePaymentEligible (demo_service True) (demo_payment ''I1'')"
    using isWalletCapturePaymentEligible_cases by blast
  from found show "isWalletCapturePaymentEligible (demo_service True) (demo_payment ''I1'')"
    using isWalletCapturePaymentEligible_cases by blast
next
  have "\<forall>wal' entry'. wallet (demo_service True) = Some wal' \<and>
      wal' (fundingSource (demo_payment ''I2'')) = Some entry'
        \<longrightarrow> (\<forall>i \<in> set (instruments entry'). inst_instrumentID i \<noteq> instrumentID (demo_payment ''I2''))"
    by (auto simp: demo_payment_def demo_service_def demo_wallet_def)
  then show "\<not> isWalletCapturePaymentEligible (demo_service True) (demo_payment ''I2'')"
    using isWalletCapturePaymentEligible_cases by blast
next
  let ?card = "\<lparr>inst_instrumentID = Some ''I1'', inst_type = Some ''card'', oneClick = False\<rparr>"
  have found: "wallet (demo_service False) = Some (demo_wallet False) \<and>
      demo_wallet False (fundingSource (demo_payment ''I1'')) = Some \<lparr>instruments = [?card]\<rparr> \<and>
      find (\<lambda>inst. inst_instrumentID inst = instrumentID (demo_payment ''I1''))
        (instruments \<lparr>instruments = [?card]\<rparr>) = Some ?card \<and>
      \<not> oneClick ?card"
    by (simp add: demo_payment_def demo_service_def demo_wallet_def)
  have member: "wallet (demo_service False) = Some (demo_wallet False) \<and>
      demo_wallet False (fundingSource (demo_payment ''I1'')) = Some \<lparr>instruments = [?card]\<rparr> \<and>
      distinct (map inst_instrumentID (instruments \<lparr>instruments = [?card]\<rparr>)) \<and>
      ?card \<in> set (instruments \<lparr>instruments = [?card]\<rparr>) \<and>
      inst_instrumentID ?card = instrumentID (demo_payment ''I1'') \<and>
      \<not> oneClick ?card"
    by (simp add: demo_payment_def demo_service_def demo_wallet_def)
  from member have "\<not> isWalletCapturePaymentEligible (demo_service False) (demo_payment ''I1'')"
    using isWalletCapturePaymentEligible_cases by blast
  from found show "\<not> isWalletCapturePaymentEligible (demo_service False) (demo_payment ''I1'')"
    using isWalletCapturePaymentEligible_cases by blast
qed

text \<open>
  C8 as stated fails on an entry that holds the selected \<^verbatim>\<open>instrumentID\<close> twice: with
  the instrument lacking \<^verbatim>\<open>oneClick\<close> first, the entry contains a matching typed
  one-click instrument and the answer is false; in the other order a matching instrument
  lacks \<^verbatim>\<open>oneClick\<close> and the answer is true.
\<close>

theorem isWalletCapturePaymentEligible_duplicate_counterexample:
  "wallet (demo_service_twice False) = Some (demo_wallet_twice False)
   \<and> demo_wallet_twice False PAYPAL = Some \<lparr>instruments =
       [\<lparr>inst_instrumentID = Some ''I1'', inst_type = Some ''card'', oneClick = False\<rparr>,
        \<lparr>inst_instrumentID = Some ''I1'', inst_type = Some ''card'', oneClick = True\<rparr>]\<rparr>
   \<and> \<not> isWalletCapturePaymentEligible (demo_service_twice False) (demo_payment ''I1'')
   \<and> demo_wallet_twice True PAYPAL = Some \<lparr>instruments =
       [\<lparr>inst_instrumentID = Some ''I1'', inst_type = Some ''card'', oneClick = True\<rparr>,
        \<lparr>inst_instrumentID = Some ''I1'', inst_type = Some ''card'', oneClick = False\<rparr>]\<rparr>
   \<and> isWalletCapturePaymentEligible (demo_service_twice True) (demo_payment ''I1'')"
  by (simp add: isWalletCapturePaymentEligible_def demo_service_twice_def demo_wallet_twice_def
      demo_payment_def truthy_def)


section \<open>Wallet capture: construction\<close>

text \<open>
  C6. \<^verbatim>\<open>initWalletCapture\<close> throws, and so returns no instance, whenever the
  \<^verbatim>\<open>instrumentID\<close> is missing, the \<^verbatim>\<open>buyerAccessToken\<close> is missing, the wallet has no
  entry for the funding source (or there is no wallet at all), no instrument of the entry
  matches the selected \<^verbatim>\<open>instrumentID\<close>, or the matching instrument has no type.
  Conversely an instance is returned only when all five are in place.
\<close>

theorem initWalletCapture_fails_fast:
  "(\<not> truthy (instrumentID pay) \<longrightarrow> (\<exists>e. initWalletCapture sd pay = Inl e))
   \<and> (\<not> truthy (buyerAccessToken sd) \<longrightarrow> (\<exists>e. initWalletCapture sd pay = Inl e))
   \<and> ((\<forall>wal'. wallet sd = Some wal' \<longrightarrow> wal' (fundingSource pay) = None)
        \<longrightarrow> (\<exists>e. initWalletCapture sd pay = Inl e))
   \<and> (wallet sd = Some wal \<and> wal (fundingSource pay) = Some entry \<and>
      find (\<lambda>inst. inst_instrumentID inst = instrumentID pay) (instruments entry) = None
        \<longrightarrow> (\<exists>e. initWalletCapture sd pay = Inl e))
   \<and> (wallet sd = Some wal \<and> wal (fundingSource pay) = Some entry \<and>
      find (\<lambda>inst. inst_instrumentID inst = instrumentID pay) (instruments entry) = Some inst \<and>
      \<not> truthy (inst_type inst)
        \<longrightarrow> (\<exists>e. initWalletCapture sd pay = Inl e))
   \<and> ((\<exists>c. initWalletCapture sd pay = Inr c) \<longrightarrow>
        truthy (instrumentID pay) \<and> truthy (buyerAccessToken sd) \<and>
        (\<exists>wal' entry' inst'. wallet sd = Some wal' \<and> wal' (fundingSource pay) = Some entry' \<and>
           find (\<lambda>inst. inst_instrumentID inst = instrumentID pay) (instruments entry') = Some inst' \<and>
           truthy (inst_type inst')))"
proof (intro conjI impI)
  assume "\<not> truthy (instrumentID pay)"
  then show "\<exists>e. initWalletCapture sd pay = Inl e"
    by (auto simp: initWalletCapture_def truthy_def split: option.splits)
next
  assume "\<not> truthy (buyerAccessToken sd)"
  then show "\<exists>e. initWalletCapture sd pay = Inl e"
    by (auto simp: initWalletCapture_def truthy_def split: option.splits)
next
  assume "\<forall>wal'. wallet sd = Some wal' \<longrightarrow> wal' (fundingSource pay) = None"
  then show "\<exists>e. initWalletCapture sd pay = Inl e"
    by (auto simp: initWalletCapture_def split: option.splits)
next
  assume "wallet sd = Some wal \<and> wal (fundingSource pay) = Some entry \<and>
      find (\<lambda>inst. inst_instrumentID inst = instrumentID pay) (instruments entry) = None"
  then show "\<exists>e. initWalletCapture sd pay = Inl e"
    by (auto simp: initWalletCapture_def split: option.splits)
next
  assume "wallet sd = Some wal \<and> wal (fundingSource pay) = Some entry \<and>
      find (\<lambda>inst. inst_instrumentID inst = instrumentID pay) (instruments entry) = Some inst \<and>
      \<not> truthy (inst_type inst)"
  then show "\<exists>e. initWalletCapture sd pay = Inl e"
    by (auto simp: initWalletCapture_def truthy_def split: option.splits)
next
  assume "\<exists>c. initWalletCapture sd pay = Inr c"
  then show "truthy (instrumentID pay)"
    by (auto simp: initWalletCapture_def truthy_def split: option.splits if_splits)
next
  assume "\<exists>c. initWalletCapture sd pay = Inr c"
  then show "truthy (buyerAccessToken sd)"
    by (auto simp: initWalletCapture_def truthy_def split: option.splits if_splits)
next
  assume "\<exists>c. initWalletCapture sd pay = Inr c"
  then show "\<exists>wal' entry' inst'. wallet sd = Some wal' \<and> wal' (fundingSource pay) = Some entry' \<and>
           find (\<lambda>inst. inst_instrumentID inst = instrumentID pay) (instruments entry') = Some inst' \<and>
           truthy (inst_type inst')"
    by (auto simp: initWalletCapture_def truthy_def split: option.splits if_splits)
qed


theorem initWalletCapture_fails_fast_witness:
  "(\<exists>e. initWalletCapture (demo_service True) ((demo_payment ''I1'')\<lparr>instrumentID := None\<rparr>) = Inl e)
   \<and> (\<exists>e. initWalletCapture ((demo_service True)\<lparr>buyerAccessToken := None\<rparr>) (demo_payment ''I1'') = Inl e)
   \<and> (\<exists>e. initWalletCapture ((demo_service True)\<lparr>wallet := Some (\<lambda>f. None)\<rparr>) (demo_payment ''I1'') = Inl e)
   \<and> (\<exists>e. initWalletCapture (demo_service True) (demo_payment ''I2'') = Inl e)
   \<and> (\<exists>e. initWalletCapture
          ((demo_service True)\<lparr>wallet := Some (\<lambda>f. Some \<lparr>instruments =
             [\<lparr>inst_instrumentID = Some ''I1'', inst_type = None, oneClick = True\<rparr>]\<rparr>)\<rparr>)
          (demo_payment ''I1'') = Inl e)
   \<and> initWalletCapture (demo_service True) (demo_payment ''I1'') = Inr demo_capture
   \<and> truthy (instrumentID (demo_payment ''I1''))"
proof (intro conjI)
  have "\<not> truthy (instrumentID ((demo_payment ''I1'')\<lparr>instrumentID := None\<rparr>))"
    by (simp add: truthy_def)
  then show "\<exists>e. initWalletCapture (demo_service True)
      ((demo_payment ''I1'')\<lparr>instrumentID := None\<rparr>) = Inl e"
    using initWalletCapture_fails_fast by blast
next
  have "\<not> truthy (buyerAccessToken ((demo_service True)\<lparr>buyerAccessToken := None\<rparr>))"
    by (simp add: truthy_def)
  then show "\<exists>e. initWalletCapture ((demo_service True)\<lparr>buyerAccessToken := None\<rparr>)
      (demo_payment ''I1'') = Inl e"
    using initWalletCapture_fails_fast by blast
next
  have "\<forall>wal'. wallet ((demo_service True)\<lparr>wallet := Some (\<lambda>f. None)\<rparr>) = Some wal'
      \<longrightarrow> wal' (fundingSource (demo_payment ''I1'')) = None"
    by auto
  then show "\<exists>e. initWalletCapture ((demo_service True)\<lparr>wallet := Some (\<lambda>f. None)\<rparr>)
      (demo_payment ''I1'') = Inl e"
    using initWalletCapture_fails_fast by blast
next
  have "wallet (demo_service True) = Some (demo_wallet True) \<and>
      demo_wallet True (fundingSource (demo_payment ''I2'')) = Some \<lparr>instruments =
        [\<lparr>inst_instrumentID = Some ''I1'', inst_type = Some ''card'', oneClick = True\<rparr>]\<rparr> \<and>
      find (\<lambda>inst. inst_instrumentID inst = instrumentID (demo_payment ''I2''))
        (instruments \<lparr>instruments =
          [\<lparr>inst_instrumentID = Some ''I1'', inst_type = Some ''card'', oneClick = True\<rparr>]\<rparr>) = None"
    by (simp add: demo_service_def demo_wallet_def demo_payment_def)
  then show "\<exists>e. initWalletCapture (demo_service True) (demo_payment ''I2'') = Inl e"
    using initWalletCapture_fails_fast by blast
next
  let ?untyped = "\<lparr>inst_instrumentID = Some ''I1'', inst_type = None, oneClick = True\<rparr>"
  let ?sd = "(demo_service True)\<lparr>wallet := Some (\<lambda>f. Some \<lparr>instruments = [?untyped]\<rparr>)\<rparr>"
  have "wallet ?sd = Some (\<lambda>f. Some \<lparr>instruments = [?untyped]\<rparr>) \<and>
      (\<lambda>f. Some \<lparr>instruments = [?untyped]\<rparr>) (fundingSource (demo_payment ''I1''))
         = Some \<lparr>instruments = [?untyped]\<rparr> \<and>
      find (\<lambda>inst. inst_instrumentID inst = instrumentID (demo_payment ''I1''))
        (instruments \<lparr>instruments = [?untyped]\<rparr>) = Some ?untyped \<and>
      \<not> truthy (inst_type ?untyped)"
    by (simp add: demo_payment_def truthy_def)
  then show "\<exists>e. initWalletCapture ?sd (demo_payment ''I1'') = Inl e"
    using initWalletCapture_fails_fast by blast
next
  show ok: "initWalletCapture (demo_service True) (demo_payment ''I1'') = Inr demo_capture"
    by (simp add: initWalletCapture_def demo_service_def demo_wallet_def demo_payment_def
        demo_capture_def)
  then have "\<exists>c. initWalletCapture (demo_service True) (demo_payment ''I1'') = Inr c"
    by blast
  then show "truthy (instrumentID (demo_payment ''I1''))"
    using initWalletCapture_fails_fast by blast
qed

section \<open>Wallet capture: start\<close>

text \<open>
  C1, as amended. When the order's supplemental info reports that a shipping address is
  required and the cart does not already hold a full shipping address, \<^verbatim>\<open>start\<close> is the
  web-checkout fallback run right after the order lookup: it never calls
  \<^verbatim>\<open>oneClickApproveOrder\<close>, it exchanges the buyer access token for an auth code, and when
  the exchange yields a code it initialises and starts checkout with that code,
  \<^verbatim>\<open>isClick: false\<close> and the buyer intent "pay with different funding/shipping"; the
  outcome of \<^verbatim>\<open>start\<close> is then the outcome of the checkout's start.
\<close>

theorem wc_start_shipping_required:
  assumes "createOrder ev (trace w @ [CreateOrder]) = Inr orderID"
    and "getSupplementalOrderInfo ev (trace w @ [CreateOrder, GetSupplementalOrderInfo orderID])
           = Inr order"
    and "isShippingAddressRequired order"
    and "\<forall>a. shippingAddress order = Some a \<longrightarrow> \<not> isFullAddress a"
  shows "wc_start ev c w = wc_fallbackToWebCheckout ev c
           (w\<lparr>trace := trace w @ [CreateOrder, GetSupplementalOrderInfo orderID]\<rparr>)
     \<and> (\<exists>es. trace (snd (wc_start ev c w)) = trace w @ es \<and>
           (\<forall>x t b i. OneClickApproveOrder x t b i \<notin> set es))
     \<and> (\<forall>code. exchangeAccessTokenForAuthCode ev
            (trace w @ [CreateOrder, GetSupplementalOrderInfo orderID,
               Log INFO ''web_checkout_fallback'' None,
               ExchangeAccessTokenForAuthCode (wc_buyerAccessToken c)]) = Inr code
          \<longrightarrow> trace (snd (wc_start ev c w)) =
                trace w @ [CreateOrder, GetSupplementalOrderInfo orderID,
                  Log INFO ''web_checkout_fallback'' None,
                  ExchangeAccessTokenForAuthCode (wc_buyerAccessToken c),
                  CheckoutInit ((wc_payment c)\<lparr>authCode := Some code, isClick := Some False,
                    buyerIntent := Some PAY_WITH_DIFFERENT_FUNDING_SHIPPING\<rparr>),
                  CheckoutStart ((wc_payment c)\<lparr>authCode := Some code, isClick := Some False,
                    buyerIntent := Some PAY_WITH_DIFFERENT_FUNDING_SHIPPING\<rparr>)]
              \<and> fst (wc_start ev c w) = checkout_start ev (trace (snd (wc_start ev c w))))"
proof -
  have required: "(case shippingAddress order of None \<Rightarrow> False | Some a \<Rightarrow> isFullAddress a) = False"
    using assms(4) by (simp split: option.splits)
  have eq: "wc_start ev c w = wc_fallbackToWebCheckout ev c
      (w\<lparr>trace := trace w @ [CreateOrder, GetSupplementalOrderInfo orderID]\<rparr>)"
    using assms(1-3) required
    by (simp add: wc_start_def shippingRequired_def promise_defs)
  show ?thesis
  proof (cases "exchangeAccessTokenForAuthCode ev
            (trace w @ [CreateOrder, GetSupplementalOrderInfo orderID,
               Log INFO ''web_checkout_fallback'' None,
               ExchangeAccessTokenForAuthCode (wc_buyerAccessToken c)])")
    case (Inl e)
    then have "trace (snd (wc_start ev c w)) = trace w @ [CreateOrder,
        GetSupplementalOrderInfo orderID, Log INFO ''web_checkout_fallback'' None,
        ExchangeAccessTokenForAuthCode (wc_buyerAccessToken c)]"
      by (simp add: eq wc_fallbackToWebCheckout_def promise_defs)
    with eq Inl show ?thesis by simp
  next
    case (Inr code)
    then have "trace (snd (wc_start ev c w)) = trace w @ [CreateOrder,
        GetSupplementalOrderInfo orderID, Log INFO ''web_checkout_fallback'' None,
        ExchangeAccessTokenForAuthCode (wc_buyerAccessToken c),
        CheckoutInit ((wc_payment c)\<lparr>authCode := Some code, isClick := Some False,
          buyerIntent := Some PAY_WITH_DIFFERENT_FUNDING_SHIPPING\<rparr>),
        CheckoutStart ((wc_payment c)\<lparr>authCode := Some code, isClick := Some False,
          buyerIntent := Some PAY_WITH_DIFFERENT_FUNDING_SHIPPING\<rparr>)]"
      and "fst (wc_start ev c w) = checkout_start ev (trace (snd (wc_start ev c w)))"
      by (simp_all add: eq wc_fallbackToWebCheckout_def promise_defs)
    with eq Inr show ?thesis by simp
  qed
qed


theorem wc_start_shipping_required_witness:
  "wc_start (demo_env_shipping False) demo_capture module_loaded =
     (Inr (), module_loaded\<lparr>trace := [CreateOrder, GetSupplementalOrderInfo ''O1'',
        Log INFO ''web_checkout_fallback'' None, ExchangeAccessTokenForAuthCode ''T1'',
        CheckoutInit ((demo_payment ''I1'')\<lparr>authCode := Some ''A1'', isClick := Some False,
          buyerIntent := Some PAY_WITH_DIFFERENT_FUNDING_SHIPPING\<rparr>),
        CheckoutStart ((demo_payment ''I1'')\<lparr>authCode := Some ''A1'', isClick := Some False,
          buyerIntent := Some PAY_WITH_DIFFERENT_FUNDING_SHIPPING\<rparr>)]\<rparr>)"
proof -
  let ?order = "\<lparr>isShippingAddressRequired = True,
    shippingAddress = Some \<lparr>isFullAddress = False\<rparr>\<rparr>"
  have h1: "createOrder (demo_env_shipping False) (trace module_loaded @ [CreateOrder]) = Inr ''O1''"
    by (simp add: demo_env_shipping_def demo_env_def)
  have h2: "getSupplementalOrderInfo (demo_env_shipping False)
      (trace module_loaded @ [CreateOrder, GetSupplementalOrderInfo ''O1'']) = Inr ?order"
    by (simp add: demo_env_shipping_def)
  have h3: "isShippingAddressRequired ?order" by simp
  have h4: "\<forall>a. shippingAddress ?order = Some a \<longrightarrow> \<not> isFullAddress a" by simp
  have "wc_start (demo_env_shipping False) demo_capture module_loaded =
      wc_fallbackToWebCheckout (demo_env_shipping False) demo_capture
        (module_loaded\<lparr>trace := trace module_loaded @
           [CreateOrder, GetSupplementalOrderInfo ''O1'']\<rparr>)"
    using wc_start_shipping_required [OF h1 h2 h3 h4] by blast
  then show ?thesis
    by (simp add: wc_fallbackToWebCheckout_def promise_defs demo_env_shipping_def demo_env_def
        demo_capture_def module_loaded_def)
qed

text \<open>
  C1 as stated fails: the supplemental info may report that a shipping address is required
  while the cart already holds a full address. \<^verbatim>\<open>shippingRequired\<close> then answers false
  and \<^verbatim>\<open>start\<close> calls \<^verbatim>\<open>oneClickApproveOrder\<close>, with no fallback.
\<close>

theorem wc_start_full_address_counterexample:
  "getSupplementalOrderInfo (demo_env_shipping True) [CreateOrder, GetSupplementalOrderInfo ''O1'']
     = Inr \<lparr>isShippingAddressRequired = True, shippingAddress = Some \<lparr>isFullAddress = True\<rparr>\<rparr>
   \<and> wc_start (demo_env_shipping True) demo_capture module_loaded =
     (Inr (), module_loaded\<lparr>trace := [CreateOrder, GetSupplementalOrderInfo ''O1'',
        OneClickApproveOrder ''O1'' ''card'' ''T1'' ''I1'',
        OnApprove \<lparr>payerID = Some ''P1'', paymentID = None, billingToken = None,
          isNativeTransaction = False\<rparr>]\<rparr>)"
  by (simp add: wc_start_def shippingRequired_def promise_defs demo_env_shipping_def demo_env_def
      demo_capture_def module_loaded_def)

text \<open>
  C4. When the one-click approval call rejects, \<^verbatim>\<open>start\<close> logs the error as a warning
  and continues as the web-checkout fallback. Its outcome is the fallback's outcome (the
  token exchange's rejection, or else whatever the checkout's start gives): the approval's
  rejection is not what the caller receives.
\<close>

theorem wc_start_approval_rejected:
  assumes "createOrder ev (trace w @ [CreateOrder]) = Inr orderID"
    and "getSupplementalOrderInfo ev (trace w @ [CreateOrder, GetSupplementalOrderInfo orderID])
           = Inr order"
    and "\<not> isShippingAddressRequired order \<or>
         (\<exists>a. shippingAddress order = Some a \<and> isFullAddress a)"
    and "oneClickApproveOrder ev (trace w @ [CreateOrder, GetSupplementalOrderInfo orderID,
           OneClickApproveOrder orderID (wc_instrumentType c) (wc_buyerAccessToken c)
             (wc_instrumentID c)]) = Inl err"
  shows "wc_start ev c w = wc_fallbackToWebCheckout ev c
           (w\<lparr>trace := trace w @ [CreateOrder, GetSupplementalOrderInfo orderID,
              OneClickApproveOrder orderID (wc_instrumentType c) (wc_buyerAccessToken c)
                (wc_instrumentID c),
              Log WARN ''approve_order_error'' (Some err)]\<rparr>)
     \<and> fst (wc_start ev c w) =
         (case exchangeAccessTokenForAuthCode ev
                 (trace w @ [CreateOrder, GetSupplementalOrderInfo orderID,
                    OneClickApproveOrder orderID (wc_instrumentType c) (wc_buyerAccessToken c)
                      (wc_instrumentID c),
                    Log WARN ''approve_order_error'' (Some err),
                    Log INFO ''web_checkout_fallback'' None,
                    ExchangeAccessTokenForAuthCode (wc_buyerAccessToken c)]) of
            Inl e \<Rightarrow> Inl e
          | Inr code \<Rightarrow> checkout_start ev (trace (snd (wc_start ev c w))))"
proof -
  have eq: "wc_start ev c w = wc_fallbackToWebCheckout ev c
      (w\<lparr>trace := trace w @ [CreateOrder, GetSupplementalOrderInfo orderID,
         OneClickApproveOrder orderID (wc_instrumentType c) (wc_buyerAccessToken c)
           (wc_instrumentID c),
         Log WARN ''approve_order_error'' (Some err)]\<rparr>)"
    using assms
    by (auto simp add: wc_start_def shippingRequired_def promise_defs)
  show ?thesis
    unfolding eq by (simp add: wc_fallbackToWebCheckout_def promise_defs split: sum.splits)
qed

theorem wc_start_approval_rejected_witness:
  "wc_start demo_env_declined demo_capture module_loaded =
     (Inr (), module_loaded\<lparr>trace := [CreateOrder, GetSupplementalOrderInfo ''O1'',
        OneClickApproveOrder ''O1'' ''card'' ''T1'' ''I1'',
        Log WARN ''approve_order_error'' (Some (Error ''declined'')),
        Log INFO ''web_checkout_fallback'' None, ExchangeAccessTokenForAuthCode ''T1'',
        CheckoutInit ((demo_payment ''I1'')\<lparr>authCode := Some ''A1'', isClick := Some False,
          buyerIntent := Some PAY_WITH_DIFFERENT_FUNDING_SHIPPING\<rparr>),
        CheckoutStart ((demo_payment ''I1'')\<lparr>authCode := Some ''A1'', isClick := Some False,
          buyerIntent := Some PAY_WITH_DIFFERENT_FUNDING_SHIPPING\<rparr>)]\<rparr>)"
proof -
  let ?order = "\<lparr>isShippingAddressRequired = False, shippingAddress = None\<rparr>"
  have h1: "createOrder demo_env_declined (trace module_loaded @ [CreateOrder]) = Inr ''O1''"
    by (simp add: demo_env_declined_def demo_env_def)
  have h2: "getSupplementalOrderInfo demo_env_declined
      (trace module_loaded @ [CreateOrder, GetSupplementalOrderInfo ''O1'']) = Inr ?order"
    by (simp add: demo_env_declined_def demo_env_def)
  have h3: "\<not> isShippingAddressRequired ?order \<or>
      (\<exists>a. shippingAddress ?order = Some a \<and> isFullAddress a)"
    by simp
  have h4: "oneClickApproveOrder demo_env_declined
      (trace module_loaded @ [CreateOrder, GetSupplementalOrderInfo ''O1'',
         OneClickApproveOrder ''O1'' (wc_instrumentType demo_capture)
           (wc_buyerAccessToken demo_capture) (wc_instrumentID demo_capture)])
      = Inl (Error ''declined'')"
    by (simp add: demo_env_declined_def)
  have "wc_start demo_env_declined demo_capture module_loaded =
      wc_fallbackToWebCheckout demo_env_declined demo_capture
        (module_loaded\<lparr>trace := trace module_loaded @
           [CreateOrder, GetSupplementalOrderInfo ''O1'',
            OneClickApproveOrder ''O1'' (wc_instrumentType demo_capture)
              (wc_buyerAccessToken demo_capture) (wc_instrumentID demo_capture),
            Log WARN ''approve_order_error'' (Some (Error ''declined''))]\<rparr>)"
    using wc_start_approval_rejected [OF h1 h2 h3 h4] by blast
  then show ?thesis
    by (simp add: wc_fallbackToWebCheckout_def promise_defs demo_env_declined_def demo_env_def
        demo_capture_def module_loaded_def)
qed

section \<open>Native: eligibility needs the socket\<close>

text \<open>
  C10. While the module's \<^verbatim>\<open>nativeSocket\<close> is absent, \<^verbatim>\<open>isNativePaymentEligible\<close> is false
  for every payment and every props; the socket is absent when the module has just been
  loaded (no setup yet) and after the socket's error handler has run.
\<close>

theorem isNativePaymentEligible_needs_socket:
  "(nativeSocket w = None \<longrightarrow> \<not> isNativePaymentEligible ev w pay prps)
   \<and> nativeSocket module_loaded = None
   \<and> nativeSocket (snd (nativeSocket_onError err w)) = None"
  by (simp add: isNativePaymentEligible_def module_loaded_def nativeSocket_onError_def
      promise_defs)

theorem isNativePaymentEligible_needs_socket_witness:
  "\<not> isNativePaymentEligible demo_env module_loaded (demo_payment ''I1'') (io_props demo_options)
   \<and> isNativePaymentEligible demo_env (snd (setupNative demo_env demo_config module_loaded))
       (demo_payment ''I1'') (io_props demo_options)
   \<and> \<not> isNativePaymentEligible demo_env
       (snd (nativeSocket_onError (Error ''lost'')
          (snd (setupNative demo_env demo_config module_loaded))))
       (demo_payment ''I1'') (io_props demo_options)"
proof (intro conjI)
  have "nativeSocket module_loaded = None"
    using isNativePaymentEligible_needs_socket by blast
  then show "\<not> isNativePaymentEligible demo_env module_loaded (demo_payment ''I1'')
      (io_props demo_options)"
    using isNativePaymentEligible_needs_socket by blast
next
  show "isNativePaymentEligible demo_env (snd (setupNative demo_env demo_config module_loaded))
      (demo_payment ''I1'') (io_props demo_options)"
    by (simp add: isNativePaymentEligible_def setupNative_def getNativeSocket_def
        firebaseSocket_def promise_defs module_loaded_def demo_env_def demo_payment_def
        demo_config_def)
next
  have "nativeSocket (snd (nativeSocket_onError (Error ''lost'')
      (snd (setupNative demo_env demo_config module_loaded)))) = None"
    using isNativePaymentEligible_needs_socket by blast
  then show "\<not> isNativePaymentEligible demo_env
      (snd (nativeSocket_onError (Error ''lost'')
         (snd (setupNative demo_env demo_config module_loaded))))
      (demo_payment ''I1'') (io_props demo_options)"
    using isNativePaymentEligible_needs_socket by blast
qed

section \<open>Concrete worlds of the native flow\<close>

lemma demo_clicked_eq:
  "demo_clicked = \<lparr>trace = [UniqueID, FirebaseSocket ''uidx'' (Some ''fb'') ''5.0'',
       SocketOnError 0, GetPageUrl, Popup demo_popup_url],
     sessionUID = Some ''uidx'', nativeSocket = Some 0,
     initialPageUrl = Some ''https://merchant.example/cart'',
     getNativeSocket_cache = [((''uidx'', Some ''fb'', ''5.0''), 0)], sockets_created = 1,
     current_instance = PromiseNoop,
     appSwitch = Some \<lparr>asp_win = Some 0, appSwitched = False\<rparr>, start_cache = None\<rparr>"
  by (simp add: demo_clicked_def native_click_def native_open_def appSwitchPopup_def
      getNativeUrl_def initNative_def setupNative_def getNativeSocket_def firebaseSocket_def
      promise_defs module_loaded_def demo_env_def demo_options_def demo_payment_def
      demo_config_def demo_popup_url_def)


lemma demo_switched_eq:
  "demo_switched = demo_clicked\<lparr>trace := trace demo_clicked @
        [CreateOrder, Log INFO ''native_app_switch'' None,
         SocketOn 0 GET_PROPS, SocketOn 0 ON_APPROVE, SocketOn 0 ON_CANCEL,
         SocketOn 0 ON_ERROR, SocketOn 0 FALLBACK, SocketReconnect 0,
         CreateOrder, GetPageUrl, Log INFO ''native_message_setprops'' None,
         SocketSend 0 SET_PROPS (Some demo_sdk_props),
         Log INFO ''native_response_setprops'' None],
       current_instance := NativeConnection 0, start_cache := Some (Inr ())\<rparr>"
  by (simp add: demo_switched_def demo_clicked_eq native_start_def native_start_body_def
      native_start_attempt_def
      appSwitch_deref_def didSwitch_def connectNative_def setProps_def getSDKProps_def
      getWebCheckoutFallbackUrl_def isNativeOptedIn_def promise_defs demo_env_switched_def
      demo_env_def demo_sdk_props_def demo_options_def demo_payment_def demo_service_def)

lemma demo_initialised_click: "run_ops demo_env demo_options [Click] demo_initialised = demo_clicked"
  by (simp add: demo_initialised_def demo_clicked_def)




section \<open>Native: start is memoised\<close>

text \<open>
  C5. A second call of the native \<^verbatim>\<open>start\<close> returns what the first call returned and
  leaves the world as the first call left it, whatever the environment would answer by
  then: no order creation, no popup and no \<^verbatim>\<open>setProps\<close> message is added to the trace.
\<close>

theorem native_start_memoized:
  "native_start ev' opts' (snd (native_start ev opts w)) = native_start ev opts w
   \<and> trace (snd (native_start ev' opts' (snd (native_start ev opts w))))
       = trace (snd (native_start ev opts w))"
proof (cases "start_cache w")
  case None
  obtain r w' where body: "native_start_body ev opts w = (r, w')"
    by (cases "native_start_body ev opts w")
  with None have first: "native_start ev opts w = (r, w'\<lparr>start_cache := Some r\<rparr>)"
    by (simp add: native_start_def)
  then have "native_start ev' opts' (snd (native_start ev opts w))
      = (r, w'\<lparr>start_cache := Some r\<rparr>)"
    by (simp add: native_start_def)
  with first show ?thesis by simp
next
  case (Some r)
  then have first: "native_start ev opts w = (r, w)"
    by (simp add: native_start_def)
  with Some have "native_start ev' opts' (snd (native_start ev opts w)) = (r, w)"
    by (simp add: native_start_def)
  with first show ?thesis by simp
qed

theorem native_start_memoized_witness:
  "native_start demo_env demo_options demo_switched
     = native_start demo_env_switched demo_options demo_clicked
   \<and> trace (snd (native_start demo_env demo_options demo_switched)) = trace demo_switched"
  unfolding demo_switched_def using native_start_memoized by blast

section \<open>Native: what the operations leave alone\<close>

lemma keeps_resolve: "keeps f (resolve x)"
  by (simp add: keeps_def resolve_def)

lemma keeps_reject: "keeps f (reject e)"
  by (simp add: keeps_def reject_def)

lemma keeps_then_p: "keeps f p \<Longrightarrow> (\<And>x. keeps f (g x)) \<Longrightarrow> keeps f (then_p p g)"
  by (auto simp: keeps_def then_p_def split: prod.splits sum.splits) (metis snd_conv)+

lemma keeps_then_else:
  "keeps f p \<Longrightarrow> (\<And>x. keeps f (g x)) \<Longrightarrow> (\<And>e. keeps f (h e)) \<Longrightarrow> keeps f (then_else p g h)"
  by (auto simp: keeps_def then_else_def split: prod.splits sum.splits) (metis snd_conv)+

lemma keeps_catch_p: "keeps f p \<Longrightarrow> (\<And>e. keeps f (h e)) \<Longrightarrow> keeps f (catch_p p h)"
  by (auto simp: keeps_def catch_p_def split: prod.splits sum.splits) (metis snd_conv)+

lemma keeps_detached: "keeps f p \<Longrightarrow> keeps f (detached p)"
  by (simp add: keeps_def detached_def)

lemma keeps_emit: "(\<And>w t. f (w\<lparr>trace := t\<rparr>) = f w) \<Longrightarrow> keeps f (emit e)"
  by (simp add: keeps_def emit_def)

lemma keeps_call: "(\<And>w t. f (w\<lparr>trace := t\<rparr>) = f w) \<Longrightarrow> keeps f (call e oracle)"
  by (simp add: keeps_def call_def)

lemma keeps_modify: "(\<And>w. f (u w) = f w) \<Longrightarrow> keeps f (modify u)"
  by (simp add: keeps_def modify_def)

lemma keeps_if: "keeps f p \<Longrightarrow> keeps f q \<Longrightarrow> keeps f (if b then p else q)"
  by simp

lemmas keeps_intros = keeps_resolve keeps_reject keeps_then_p keeps_then_else keeps_catch_p
  keeps_detached keeps_emit keeps_call keeps_modify keeps_if


lemma keeps_didSwitch: "keeps f (didSwitch ev a)"
  by (simp add: keeps_def didSwitch_def)

lemma keeps_appSwitch_deref: "keeps f appSwitch_deref"
  by (simp add: keeps_def appSwitch_deref_def split: option.splits)

lemma keeps_appSwitch_close:
  "(\<And>w t. f (w\<lparr>trace := t\<rparr>) = f w) \<Longrightarrow> keeps f (appSwitch_close a)"
  by (simp add: appSwitch_close_def keeps_intros split: option.splits)

lemma keeps_connectNative:
  "(\<And>w t. f (w\<lparr>trace := t\<rparr>) = f w) \<Longrightarrow> keeps f connectNative"
  by (simp add: keeps_def connectNative_def promise_defs split: option.splits)

lemma keeps_getSDKProps:
  "(\<And>w t. f (w\<lparr>trace := t\<rparr>) = f w) \<Longrightarrow> keeps f (getSDKProps ev opts)"
  by (simp add: keeps_def getSDKProps_def promise_defs split: prod.splits)

lemma keeps_setProps:
  "(\<And>w t. f (w\<lparr>trace := t\<rparr>) = f w) \<Longrightarrow> keeps f (setProps ev opts s)"
  unfolding setProps_def by (intro keeps_intros keeps_getSDKProps) simp_all

lemma keeps_closeNative_send:
  "(\<And>w t. f (w\<lparr>trace := t\<rparr>) = f w) \<Longrightarrow> keeps f (closeNative_send ev s)"
  by (simp add: keeps_def closeNative_send_def promise_defs)

lemma keeps_closeNative_ack:
  "(\<And>w t. f (w\<lparr>trace := t\<rparr>) = f w) \<Longrightarrow> keeps f (closeNative_ack s ack)"
  by (simp add: closeNative_ack_def keeps_intros split: sum.splits)

lemma keeps_closeNative:
  "(\<And>w t. f (w\<lparr>trace := t\<rparr>) = f w) \<Longrightarrow> keeps f (closeNative ev s)"
  unfolding closeNative_def by (intro keeps_intros keeps_closeNative_send keeps_closeNative_ack)

lemma keeps_native_close:
  "(\<And>w t. f (w\<lparr>trace := t\<rparr>) = f w) \<Longrightarrow> keeps f (native_close ev)"
  unfolding native_close_def
  by (intro keeps_intros keeps_appSwitch_deref keeps_didSwitch keeps_connectNative
      keeps_closeNative_send keeps_appSwitch_close keeps_closeNative_ack)

lemma keeps_native_open:
  assumes "\<And>w t. f (w\<lparr>trace := t\<rparr>) = f w" and "\<And>w a. f (w\<lparr>appSwitch := a\<rparr>) = f w"
  shows "keeps f (native_open ev opts)"
  using assms
  by (simp add: keeps_def native_open_def appSwitchPopup_def promise_defs
      split: prod.splits sum.splits)

lemma keeps_native_click:
  assumes "\<And>w t. f (w\<lparr>trace := t\<rparr>) = f w" and "\<And>w a. f (w\<lparr>appSwitch := a\<rparr>) = f w"
  shows "keeps f (native_click ev opts)"
  unfolding native_click_def
  by (intro keeps_intros keeps_native_open keeps_native_close assms)
    (simp_all add: keeps_intros assms split: option.splits)

lemma keeps_fallbackToWebCheckout:
  assumes "\<And>w t. f (w\<lparr>trace := t\<rparr>) = f w" and "\<And>w i. f (w\<lparr>current_instance := i\<rparr>) = f w"
  shows "keeps f (fallbackToWebCheckout ev opts wn token payloadID)"
  unfolding fallbackToWebCheckout_def
  by (intro keeps_intros assms)

lemma keeps_native_start_body:
  assumes "\<And>w t. f (w\<lparr>trace := t\<rparr>) = f w" and "\<And>w i. f (w\<lparr>current_instance := i\<rparr>) = f w"
  shows "keeps f (native_start_body ev opts)"
  unfolding native_start_body_def native_start_attempt_def
  by (intro keeps_intros keeps_appSwitch_deref keeps_didSwitch keeps_connectNative
      keeps_setProps keeps_fallbackToWebCheckout keeps_native_close assms)

lemma keeps_native_start:
  assumes "\<And>w t. f (w\<lparr>trace := t\<rparr>) = f w" and "\<And>w i. f (w\<lparr>current_instance := i\<rparr>) = f w"
    and "\<And>w r. f (w\<lparr>start_cache := r\<rparr>) = f w"
  shows "keeps f (native_start ev opts)"
  using keeps_native_start_body [of f ev opts, OF assms(1,2)] assms(3)
  by (auto simp: keeps_def native_start_def split: option.splits prod.splits) (metis snd_conv)

lemma keeps_instance_close:
  assumes "\<And>w t. f (w\<lparr>trace := t\<rparr>) = f w"
  shows "keeps f (instance_close ev)"
  using keeps_closeNative [of f ev, OF assms] assms
  by (auto simp: keeps_def instance_close_def resolve_def call_def split: sub_instance.splits)

lemma keeps_native_message:
  assumes "\<And>w t. f (w\<lparr>trace := t\<rparr>) = f w" and "\<And>w i. f (w\<lparr>current_instance := i\<rparr>) = f w"
  shows "keeps f (native_message ev opts s m)"
  unfolding native_message_def
  by (cases m; simp; intro keeps_intros keeps_getSDKProps keeps_fallbackToWebCheckout assms)




section \<open>Native: close before start\<close>





lemma current_instance_fallbackToWebCheckout:
  "current_instance (snd (fallbackToWebCheckout ev opts wn token payloadID w))
     = CheckoutInstance (checkoutPayment opts wn token payloadID)"
  by (simp add: fallbackToWebCheckout_def promise_defs)










section \<open>Native: the session socket\<close>

text \<open>
  C3, as amended. The module's \<^verbatim>\<open>nativeSocket\<close> is written only by \<^verbatim>\<open>setupNative\<close> and by
  the socket's error handler: click, start, both closes and the message handlers leave it,
  and the number of sockets created, as they are, and the error handler sets it to absent.
  \<^verbatim>\<open>setupNative\<close> installs the socket the memoised \<^verbatim>\<open>getNativeSocket\<close> yields for the
  session UID it has just drawn: a UID not seen before (with this config and version)
  creates a new socket, also while a valid one is installed; only a UID seen before yields
  the cached socket and creates nothing.
\<close>

theorem native_socket_lifecycle:
  "(map_of (getNativeSocket_cache w) (uniqueID ev (trace w @ [UniqueID]), firebase cfg, version cfg)
        = None
      \<longrightarrow> nativeSocket (snd (setupNative ev cfg w)) = Some (sockets_created w)
          \<and> sockets_created (snd (setupNative ev cfg w)) = Suc (sockets_created w))
   \<and> (map_of (getNativeSocket_cache w) (uniqueID ev (trace w @ [UniqueID]), firebase cfg, version cfg)
        = Some s
      \<longrightarrow> nativeSocket (snd (setupNative ev cfg w)) = Some s
          \<and> sockets_created (snd (setupNative ev cfg w)) = sockets_created w)
   \<and> socket_state (snd (nativeSocket_onError err w)) = (None, sockets_created w)
   \<and> keeps socket_state (native_click ev opts)
   \<and> keeps socket_state (native_start ev opts)
   \<and> keeps socket_state (instance_close ev)
   \<and> keeps socket_state (native_close ev)
   \<and> keeps socket_state (native_message ev opts s' m)"
proof (intro conjI impI)
  assume "map_of (getNativeSocket_cache w)
      (uniqueID ev (trace w @ [UniqueID]), firebase cfg, version cfg) = None"
  then show "nativeSocket (snd (setupNative ev cfg w)) = Some (sockets_created w)"
    and "sockets_created (snd (setupNative ev cfg w)) = Suc (sockets_created w)"
    by (simp_all add: setupNative_def getNativeSocket_def firebaseSocket_def promise_defs
        split: sum.splits)
next
  assume "map_of (getNativeSocket_cache w)
      (uniqueID ev (trace w @ [UniqueID]), firebase cfg, version cfg) = Some s"
  then show "nativeSocket (snd (setupNative ev cfg w)) = Some s"
    and "sockets_created (snd (setupNative ev cfg w)) = sockets_created w"
    by (simp_all add: setupNative_def getNativeSocket_def firebaseSocket_def promise_defs
        split: sum.splits)
next
  show "socket_state (snd (nativeSocket_onError err w)) = (None, sockets_created w)"
    by (simp add: socket_state_def nativeSocket_onError_def promise_defs)
next
  show "keeps socket_state (native_click ev opts)"
    by (rule keeps_native_click) (simp_all add: socket_state_def)
next
  show "keeps socket_state (native_start ev opts)"
    by (rule keeps_native_start) (simp_all add: socket_state_def)
next
  show "keeps socket_state (instance_close ev)"
    by (rule keeps_instance_close) (simp_all add: socket_state_def)
next
  show "keeps socket_state (native_close ev)"
    by (rule keeps_native_close) (simp_all add: socket_state_def)
next
  show "keeps socket_state (native_message ev opts s' m)"
    by (rule keeps_native_message) (simp_all add: socket_state_def)
qed

text \<open>
  C3 as stated fails: a second \<^verbatim>\<open>setupNative\<close> draws a second session UID, the cache of
  \<^verbatim>\<open>getNativeSocket\<close> misses, and a second socket is created and installed while the
  first one is still valid.
\<close>

theorem setupNative_twice_counterexample:
  "socket_state (snd (setupNative demo_env demo_config module_loaded)) = (Some 0, 1)
   \<and> socket_state (snd (setupNative demo_env demo_config
        (snd (setupNative demo_env demo_config module_loaded)))) = (Some 1, 2)"
  by (simp add: socket_state_def setupNative_def getNativeSocket_def firebaseSocket_def
      promise_defs module_loaded_def demo_env_def demo_config_def)

theorem native_socket_lifecycle_witness:
  "socket_state (snd (setupNative demo_env_same_uid demo_config module_loaded)) = (Some 0, 1)
   \<and> socket_state (snd (setupNative demo_env_same_uid demo_config
        (snd (setupNative demo_env_same_uid demo_config module_loaded)))) = (Some 0, 1)"
proof -
  let ?w1 = "snd (setupNative demo_env_same_uid demo_config module_loaded)"
  have fresh: "map_of (getNativeSocket_cache module_loaded)
      (uniqueID demo_env_same_uid (trace module_loaded @ [UniqueID]), firebase demo_config,
       version demo_config) = None"
    by (simp add: module_loaded_def)
  have first: "socket_state ?w1 = (Some 0, 1)"
    using native_socket_lifecycle [of module_loaded demo_env_same_uid demo_config] fresh
    by (simp add: socket_state_def module_loaded_def)
  have cached: "map_of (getNativeSocket_cache ?w1)
      (uniqueID demo_env_same_uid (trace ?w1 @ [UniqueID]), firebase demo_config,
       version demo_config) = Some 0"
    by (simp add: setupNative_def getNativeSocket_def firebaseSocket_def promise_defs
        module_loaded_def demo_env_same_uid_def demo_env_def demo_config_def)
  have "socket_state (snd (setupNative demo_env_same_uid demo_config ?w1)) = socket_state ?w1"
    using native_socket_lifecycle [of ?w1 demo_env_same_uid demo_config 0] cached first
    by (simp add: socket_state_def)
  with first show ?thesis by simp
qed

section \<open>Native: the two closes\<close>









section \<open>Native: handlers before \<^verbatim>\<open>setProps\<close>\<close>


lemma appendable_quiet: "appendable quiet"
  by (simp add: appendable_def quiet_def)

lemma quiet_ready: "quiet es \<Longrightarrow> ready es"
  by (auto simp: quiet_def ready_def is_setProps_def list_all_iff)

lemma appendable_ready: "appendable ready"
proof -
  have "ready (xs @ ys)" if xs: "ready xs" and ys: "ready ys" for xs ys
    unfolding ready_def
  proof (intro allI impI)
    fix pre s p post
    assume eq: "xs @ ys = pre @ SocketSend s SET_PROPS p # post"
    then consider us where "xs = pre @ us" "us @ ys = SocketSend s SET_PROPS p # post"
      | us where "xs @ us = pre" "ys = us @ SocketSend s SET_PROPS p # post"
      by (auto simp: append_eq_append_conv2)
    then show "\<exists>a b. pre = a @ connectNative_events s @ b"
    proof cases
      case 1
      show ?thesis
      proof (cases us)
        case Nil
        with 1 have "ys = [] @ SocketSend s SET_PROPS p # post" by simp
        with ys have "\<exists>a b. [] = a @ connectNative_events s @ b"
          unfolding ready_def by blast
        then show ?thesis by (simp add: connectNative_events_def)
      next
        case (Cons u us')
        with 1 have "xs = pre @ SocketSend s SET_PROPS p # us'" by simp
        with xs show ?thesis unfolding ready_def by blast
      qed
    next
      case 2
      with ys obtain a b where "us = a @ connectNative_events s @ b"
        unfolding ready_def by blast
      with 2 have "pre = (xs @ a) @ connectNative_events s @ b" by simp
      then show ?thesis by blast
    qed
  qed
  moreover have "ready []" by (simp add: ready_def)
  ultimately show ?thesis by (simp add: appendable_def)
qed

lemma ready_after_connectNative:
  assumes "list_all (sends_to s) es"
  shows "ready (connectNative_events s @ es)"
  unfolding ready_def
proof (intro allI impI)
  fix pre s' p post
  assume eq: "connectNative_events s @ es = pre @ SocketSend s' SET_PROPS p # post"
  then consider us where "connectNative_events s = pre @ us"
        "us @ es = SocketSend s' SET_PROPS p # post"
    | us where "connectNative_events s @ us = pre" "es = us @ SocketSend s' SET_PROPS p # post"
    by (auto simp: append_eq_append_conv2)
  then show "\<exists>a b. pre = a @ connectNative_events s' @ b"
  proof cases
    case 1
    show ?thesis
    proof (cases us)
      case Nil
      with 1 have "es = SocketSend s' SET_PROPS p # post" and "pre = connectNative_events s"
        by simp_all
      with assms have "s' = s" by (simp add: sends_to_def)
      with \<open>pre = connectNative_events s\<close> have "pre = [] @ connectNative_events s' @ []"
        by simp
      then show ?thesis by blast
    next
      case (Cons u us')
      with 1 have "SocketSend s' SET_PROPS p \<in> set (connectNative_events s)"
        by (metis append_Cons in_set_conv_decomp list.inject)
      then show ?thesis by (simp add: connectNative_events_def)
    qed
  next
    case 2
    with assms have "s' = s" by (simp add: sends_to_def)
    with 2 have "pre = [] @ connectNative_events s' @ us" by simp
    then show ?thesis by blast
  qed
qed


lemma emits_weaken: "emits Q p \<Longrightarrow> (\<And>es. Q es \<Longrightarrow> Q' es) \<Longrightarrow> emits Q' p"
  unfolding emits_def by blast

lemma emits_resolve: "appendable Q \<Longrightarrow> emits Q (resolve x)"
  by (simp add: emits_def resolve_def appendable_def)

lemma emits_reject: "appendable Q \<Longrightarrow> emits Q (reject e)"
  by (simp add: emits_def reject_def appendable_def)

lemma emits_emit: "Q [e] \<Longrightarrow> emits Q (emit e)"
  by (simp add: emits_def emit_def)

lemma emits_call: "Q [e] \<Longrightarrow> emits Q (call e oracle)"
  by (simp add: emits_def call_def)

lemma emits_modify: "appendable Q \<Longrightarrow> (\<And>w. trace (u w) = trace w) \<Longrightarrow> emits Q (modify u)"
  by (simp add: emits_def modify_def appendable_def)

lemma emits_seq:
  assumes Q: "appendable Q" and p: "emits Q p" and f: "emits Q f"
  shows "\<exists>es. trace (snd (f (snd (p w)))) = trace w @ es \<and> Q es"
proof -
  from p obtain es1 where 1: "trace (snd (p w)) = trace w @ es1" "Q es1"
    unfolding emits_def by blast
  from f obtain es2 where 2: "trace (snd (f (snd (p w)))) = trace (snd (p w)) @ es2" "Q es2"
    unfolding emits_def by blast
  from 1 2 Q have "trace (snd (f (snd (p w)))) = trace w @ (es1 @ es2)" "Q (es1 @ es2)"
    by (simp_all add: appendable_def)
  then show ?thesis by blast
qed

lemma emits_then_p:
  assumes Q: "appendable Q" and p: "emits Q p" and f: "\<And>x. emits Q (f x)"
  shows "emits Q (then_p p f)"
  unfolding emits_def
proof
  fix w
  show "\<exists>es. trace (snd (then_p p f w)) = trace w @ es \<and> Q es"
  proof (cases "p w")
    case (Pair r w')
    show ?thesis
    proof (cases r)
      case (Inl e)
      with Pair p show ?thesis
        by (simp add: then_p_def emits_def) (metis snd_conv)
    next
      case (Inr x)
      with Pair emits_seq [OF Q p f [of x], of w] show ?thesis
        by (simp add: then_p_def)
    qed
  qed
qed

lemma emits_then_else:
  assumes Q: "appendable Q" and p: "emits Q p" and f: "\<And>x. emits Q (f x)"
    and g: "\<And>e. emits Q (g e)"
  shows "emits Q (then_else p f g)"
  unfolding emits_def
proof
  fix w
  show "\<exists>es. trace (snd (then_else p f g w)) = trace w @ es \<and> Q es"
  proof (cases "p w")
    case (Pair r w')
    show ?thesis
    proof (cases r)
      case (Inl e)
      with Pair emits_seq [OF Q p g [of e], of w] show ?thesis
        by (simp add: then_else_def)
    next
      case (Inr x)
      with Pair emits_seq [OF Q p f [of x], of w] show ?thesis
        by (simp add: then_else_def)
    qed
  qed
qed

lemma emits_catch_p:
  assumes Q: "appendable Q" and p: "emits Q p" and g: "\<And>e. emits Q (g e)"
  shows "emits Q (catch_p p g)"
  unfolding emits_def
proof
  fix w
  show "\<exists>es. trace (snd (catch_p p g w)) = trace w @ es \<and> Q es"
  proof (cases "p w")
    case (Pair r w')
    show ?thesis
    proof (cases r)
      case (Inl e)
      with Pair emits_seq [OF Q p g [of e], of w] show ?thesis
        by (simp add: catch_p_def)
    next
      case (Inr x)
      with Pair p show ?thesis
        by (simp add: catch_p_def emits_def) (metis snd_conv)
    qed
  qed
qed

lemma emits_detached: "emits Q p \<Longrightarrow> emits Q (detached p)"
  by (simp add: emits_def detached_def)

lemma emits_if: "emits Q p \<Longrightarrow> emits Q q \<Longrightarrow> emits Q (if b then p else q)"
  by simp

lemmas emits_intros = emits_resolve emits_reject emits_then_p emits_then_else emits_catch_p
  emits_detached emits_modify emits_if

lemma quiet_single: "\<not> is_setProps e \<Longrightarrow> quiet [e]"
  by (simp add: quiet_def)

lemma emits_quiet_emit: "\<not> is_setProps e \<Longrightarrow> emits quiet (emit e)"
  by (simp add: emits_emit quiet_single)

lemma emits_quiet_call: "\<not> is_setProps e \<Longrightarrow> emits quiet (call e oracle)"
  by (simp add: emits_call quiet_single)

lemma emits_didSwitch: "appendable Q \<Longrightarrow> emits Q (didSwitch ev a)"
  by (simp add: emits_def didSwitch_def appendable_def)

lemma emits_appSwitch_deref: "appendable Q \<Longrightarrow> emits Q appSwitch_deref"
  by (simp add: emits_def appSwitch_deref_def appendable_def split: option.splits)

lemma emits_appSwitch_close: "emits quiet (appSwitch_close a)"
  by (simp add: appSwitch_close_def emits_quiet_emit emits_resolve appendable_quiet
      is_setProps_def split: option.splits)

lemma connectNative_run:
  "connectNative w = (case nativeSocket w of
       None \<Rightarrow> (Inl (Error ''Native socket connection not established''), w)
     | Some s \<Rightarrow> (Inr s, w\<lparr>trace := trace w @ connectNative_events s\<rparr>))"
  by (simp add: connectNative_def connectNative_events_def promise_defs split: option.splits)

lemma emits_connectNative: "emits quiet connectNative"
  by (simp add: emits_def connectNative_run connectNative_events_def quiet_def is_setProps_def
      split: option.splits)

lemma emits_getSDKProps: "emits quiet (getSDKProps ev opts)"
  by (simp add: emits_def getSDKProps_def call_def quiet_def is_setProps_def)

lemma emits_closeNative_send: "emits quiet (closeNative_send ev s)"
  by (simp add: emits_def closeNative_send_def promise_defs quiet_def is_setProps_def)

lemma emits_closeNative_ack: "emits quiet (closeNative_ack s ack)"
  by (simp add: closeNative_ack_def emits_intros emits_quiet_emit appendable_quiet
      is_setProps_def split: sum.splits)

lemma emits_closeNative: "emits quiet (closeNative ev s)"
  unfolding closeNative_def
  by (intro emits_then_p appendable_quiet emits_closeNative_send emits_closeNative_ack)

lemma emits_native_close: "emits quiet (native_close ev)"
  unfolding native_close_def
  by (intro emits_intros appendable_quiet emits_quiet_emit emits_appSwitch_deref emits_didSwitch
      emits_connectNative emits_closeNative_send emits_appSwitch_close emits_closeNative_ack)
    (simp add: is_setProps_def)

lemma emits_fallbackToWebCheckout:
  "emits quiet (fallbackToWebCheckout ev opts wn token payloadID)"
  unfolding fallbackToWebCheckout_def
  by (intro emits_intros appendable_quiet emits_quiet_emit emits_quiet_call)
    (simp_all add: is_setProps_def)

lemma emits_native_open: "emits quiet (native_open ev opts)"
  by (simp add: emits_def native_open_def appSwitchPopup_def promise_defs quiet_def
      is_setProps_def split: prod.splits sum.splits)

lemma emits_native_click: "emits quiet (native_click ev opts)"
  unfolding native_click_def
  by (intro emits_intros appendable_quiet emits_native_open emits_native_close)
    (simp add: emits_resolve emits_quiet_call appendable_quiet is_setProps_def
      split: option.splits)

lemma emits_instance_close: "emits quiet (instance_close ev)"
  using emits_closeNative [of ev]
  by (auto simp: emits_def instance_close_def resolve_def call_def quiet_def is_setProps_def
      split: sub_instance.splits)

lemma emits_native_message: "emits quiet (native_message ev opts s m)"
  unfolding native_message_def
  by (cases m; simp; intro emits_intros appendable_quiet emits_quiet_emit emits_quiet_call
      emits_getSDKProps emits_fallbackToWebCheckout; simp add: is_setProps_def)


lemma setProps_sends_to: "emits (list_all (sends_to s)) (setProps ev opts s)"
  by (simp add: emits_def setProps_def getSDKProps_def promise_defs sends_to_def
      split: sum.splits prod.splits)

lemma emits_connect_setProps:
  "emits ready (then_p connectNative (\<lambda>s.
     then_p (modify (\<lambda>w. w\<lparr>current_instance := NativeConnection s\<rparr>)) (\<lambda>_.
     setProps ev opts s)))"
  unfolding emits_def
proof
  fix w
  let ?block = "then_p connectNative (\<lambda>s.
     then_p (modify (\<lambda>w. w\<lparr>current_instance := NativeConnection s\<rparr>)) (\<lambda>_.
     setProps ev opts s))"
  show "\<exists>es. trace (snd (?block w)) = trace w @ es \<and> ready es"
  proof (cases "nativeSocket w")
    case None
    then have "trace (snd (?block w)) = trace w @ []"
      by (simp add: then_p_def connectNative_run)
    moreover have "ready []" by (simp add: ready_def)
    ultimately show ?thesis by blast
  next
    case (Some s)
    let ?w1 = "w\<lparr>trace := trace w @ connectNative_events s,
      current_instance := NativeConnection s\<rparr>"
    from Some have run: "?block w = setProps ev opts s ?w1"
      by (simp add: then_p_def modify_def connectNative_run)
    from setProps_sends_to [of s ev opts] obtain es
      where es: "trace (snd (setProps ev opts s ?w1)) = trace ?w1 @ es" "list_all (sends_to s) es"
      unfolding emits_def by blast
    from es(1) run have "trace (snd (?block w)) = trace w @ (connectNative_events s @ es)"
      by simp
    moreover from es(2) have "ready (connectNative_events s @ es)"
      by (rule ready_after_connectNative)
    ultimately show ?thesis by blast
  qed
qed

lemma emits_ready_emit: "\<not> is_setProps e \<Longrightarrow> emits ready (emit e)"
  by (rule emits_weaken [OF emits_quiet_emit quiet_ready])

lemma emits_ready_call: "\<not> is_setProps e \<Longrightarrow> emits ready (call e oracle)"
  by (rule emits_weaken [OF emits_quiet_call quiet_ready])

lemma emits_native_start_body: "emits ready (native_start_body ev opts)"
  unfolding native_start_body_def native_start_attempt_def
  by (intro emits_intros appendable_ready emits_ready_call emits_ready_emit
      emits_appSwitch_deref emits_didSwitch emits_connect_setProps
      emits_weaken [OF emits_fallbackToWebCheckout quiet_ready]
      emits_weaken [OF emits_native_close quiet_ready])
    (simp_all add: is_setProps_def)

lemma emits_native_start: "emits ready (native_start ev opts)"
  unfolding emits_def
proof
  fix w
  show "\<exists>es. trace (snd (native_start ev opts w)) = trace w @ es \<and> ready es"
  proof (cases "start_cache w")
    case None
    from emits_native_start_body [of ev opts] obtain es
      where "trace (snd (native_start_body ev opts w)) = trace w @ es" "ready es"
      unfolding emits_def by blast
    with None show ?thesis
      by (auto simp: native_start_def split: prod.splits)
  next
    case (Some r)
    then have "trace (snd (native_start ev opts w)) = trace w @ []"
      by (simp add: native_start_def)
    moreover have "ready []" by (simp add: ready_def)
    ultimately show ?thesis by blast
  qed
qed

lemma quiet_no_setProps: "quiet es \<Longrightarrow> SocketSend s SET_PROPS p \<notin> set es"
  by (auto simp: quiet_def list_all_iff is_setProps_def)

text \<open>
  C9. Whenever \<^verbatim>\<open>start\<close> sends a \<^verbatim>\<open>setProps\<close> message on a socket, what that call of
  \<^verbatim>\<open>start\<close> has added to the trace before the message holds the registration of the
  five handlers (getProps, onApprove, onCancel, onError, fallback) on that socket, followed
  by its reconnect. No other operation of the flow (click, either close, a message handler)
  sends \<^verbatim>\<open>setProps\<close> at all.
\<close>

theorem setProps_after_connectNative:
  "(trace (snd (native_start ev opts w)) = trace w @ pre @ SocketSend s SET_PROPS p # post
      \<longrightarrow> (\<exists>a b. pre = a @ [SocketOn s GET_PROPS, SocketOn s ON_APPROVE, SocketOn s ON_CANCEL,
              SocketOn s ON_ERROR, SocketOn s FALLBACK, SocketReconnect s] @ b))
   \<and> (trace (snd (native_click ev opts w)) = trace w @ es
      \<longrightarrow> SocketSend s SET_PROPS p \<notin> set es)
   \<and> (trace (snd (instance_close ev w)) = trace w @ es
      \<longrightarrow> SocketSend s SET_PROPS p \<notin> set es)
   \<and> (trace (snd (native_close ev w)) = trace w @ es
      \<longrightarrow> SocketSend s SET_PROPS p \<notin> set es)
   \<and> (trace (snd (native_message ev opts s' m w)) = trace w @ es
      \<longrightarrow> SocketSend s SET_PROPS p \<notin> set es)"
proof (intro conjI impI)
  assume run: "trace (snd (native_start ev opts w)) =
      trace w @ pre @ SocketSend s SET_PROPS p # post"
  from emits_native_start [of ev opts] obtain es'
    where "trace (snd (native_start ev opts w)) = trace w @ es'" "ready es'"
    unfolding emits_def by blast
  with run have "ready (pre @ SocketSend s SET_PROPS p # post)" by simp
  then have "\<exists>a b. pre = a @ connectNative_events s @ b"
    unfolding ready_def by blast
  then show "\<exists>a b. pre = a @ [SocketOn s GET_PROPS, SocketOn s ON_APPROVE,
      SocketOn s ON_CANCEL, SocketOn s ON_ERROR, SocketOn s FALLBACK, SocketReconnect s] @ b"
    by (simp add: connectNative_events_def)
next
  assume run: "trace (snd (native_click ev opts w)) = trace w @ es"
  from emits_native_click [of ev opts] obtain es'
    where "trace (snd (native_click ev opts w)) = trace w @ es'" "quiet es'"
    unfolding emits_def by blast
  with run have "quiet es" by simp
  then show "SocketSend s SET_PROPS p \<notin> set es" by (rule quiet_no_setProps)
next
  assume run: "trace (snd (instance_close ev w)) = trace w @ es"
  from emits_instance_close [of ev] obtain es'
    where "trace (snd (instance_close ev w)) = trace w @ es'" "quiet es'"
    unfolding emits_def by blast
  with run have "quiet es" by simp
  then show "SocketSend s SET_PROPS p \<notin> set es" by (rule quiet_no_setProps)
next
  assume run: "trace (snd (native_close ev w)) = trace w @ es"
  from emits_native_close [of ev] obtain es'
    where "trace (snd (native_close ev w)) = trace w @ es'" "quiet es'"
    unfolding emits_def by blast
  with run have "quiet es" by simp
  then show "SocketSend s SET_PROPS p \<notin> set es" by (rule quiet_no_setProps)
next
  assume run: "trace (snd (native_message ev opts s' m w)) = trace w @ es"
  from emits_native_message [of ev opts s' m] obtain es'
    where "trace (snd (native_message ev opts s' m w)) = trace w @ es'" "quiet es'"
    unfolding emits_def by blast
  with run have "quiet es" by simp
  then show "SocketSend s SET_PROPS p \<notin> set es" by (rule quiet_no_setProps)
qed


theorem setProps_after_connectNative_witness:
  "trace demo_switched = trace demo_clicked @
     [CreateOrder, Log INFO ''native_app_switch'' None,
      SocketOn 0 GET_PROPS, SocketOn 0 ON_APPROVE, SocketOn 0 ON_CANCEL,
      SocketOn 0 ON_ERROR, SocketOn 0 FALLBACK, SocketReconnect 0,
      CreateOrder, GetPageUrl, Log INFO ''native_message_setprops'' None] @
     SocketSend 0 SET_PROPS (Some demo_sdk_props) # [Log INFO ''native_response_setprops'' None]
   \<and> (\<exists>a b. [CreateOrder, Log INFO ''native_app_switch'' None,
      SocketOn 0 GET_PROPS, SocketOn 0 ON_APPROVE, SocketOn 0 ON_CANCEL,
      SocketOn 0 ON_ERROR, SocketOn 0 FALLBACK, SocketReconnect 0,
      CreateOrder, GetPageUrl, Log INFO ''native_message_setprops'' None] =
        a @ [SocketOn 0 GET_PROPS, SocketOn 0 ON_APPROVE, SocketOn 0 ON_CANCEL,
             SocketOn 0 ON_ERROR, SocketOn 0 FALLBACK, SocketReconnect 0] @ b)"
proof -
  have run: "trace (snd (native_start demo_env_switched demo_options demo_clicked)) =
     trace demo_clicked @
     [CreateOrder, Log INFO ''native_app_switch'' None,
      SocketOn 0 GET_PROPS, SocketOn 0 ON_APPROVE, SocketOn 0 ON_CANCEL,
      SocketOn 0 ON_ERROR, SocketOn 0 FALLBACK, SocketReconnect 0,
      CreateOrder, GetPageUrl, Log INFO ''native_message_setprops'' None] @
     SocketSend 0 SET_PROPS (Some demo_sdk_props) # [Log INFO ''native_response_setprops'' None]"
    using demo_switched_eq by (simp add: demo_switched_def)
  with setProps_after_connectNative show ?thesis
    unfolding demo_switched_def by blast
qed


end
